theory Spec2Isabelle
  imports Main "HOL-Library.Sublist"
begin

section \<open>Python values, strings and exceptions\<close>

text \<open>
  The program is \<^verbatim>\<open>src/main.py\<close>: the class \<^verbatim>\<open>BlossomUploader\<close> and \<^verbatim>\<open>main\<close>.
  Byte strings and text strings are both lists of \<^typ>\<open>char\<close>.
\<close>

type_synonym bytes = string

text \<open>
  The exception classes the handlers of the source tell apart, with the message
  \<^verbatim>\<open>str(e)\<close>. \<open>OtherError\<close> stands for every class that is none of the named ones.
\<close>

datatype exn_class =
  TypeError | AttributeError | ValueError | NotImplementedError | FileNotFoundError | OtherError

datatype exn = Exn (exn_class_of: exn_class) (str_of: string)

text \<open>
  The values \<^verbatim>\<open>response.json()\<close> returns and \<^verbatim>\<open>set_output\<close> receives. A dictionary is an
  association list with the keys distinct.
\<close>

datatype pyval =
  PNone | PBool bool | PInt int | PStr string | PList "pyval list" | PDict "(string \<times> pyval) list"

text \<open>\<^verbatim>\<open>needle in haystack\<close> on strings.\<close>

fun py_in :: "string \<Rightarrow> string \<Rightarrow> bool" where
  "py_in needle [] = (needle = [])"
| "py_in needle (c # cs) = (prefix needle (c # cs) \<or> py_in needle cs)"

text \<open>\<^verbatim>\<open>str(n)\<close> for an integer: decimal digits, a leading minus sign when negative.\<close>

definition digit_char :: "nat \<Rightarrow> char" where
  "digit_char d = ''0123456789'' ! d"

fun str_nat :: "nat \<Rightarrow> string" where
  "str_nat n = (if n < 10 then [digit_char n] else str_nat (n div 10) @ [digit_char (n mod 10)])"

declare str_nat.simps [simp del]

definition str_int :: "int \<Rightarrow> string" where
  "str_int i = (if i < 0 then CHR ''-'' # str_nat (nat (- i)) else str_nat (nat i))"

text \<open>\<^verbatim>\<open>host.rstrip('/')\<close>.\<close>

definition rstrip_slash :: "string \<Rightarrow> string" where
  "rstrip_slash s = rev (dropWhile (\<lambda>c. c = CHR ''/'') (rev s))"

text \<open>\<^verbatim>\<open>dict.get(key, default)\<close>.\<close>

definition dict_get :: "(string \<times> pyval) list \<Rightarrow> string \<Rightarrow> pyval \<Rightarrow> pyval" where
  "dict_get kv k d = (case map_of kv k of None \<Rightarrow> d | Some v \<Rightarrow> v)"

text \<open>
  \<^verbatim>\<open>bytes.fromhex(s)\<close>: two hexadecimal digits per byte, ASCII whitespace skipped before
  each pair; anything else raises \<^verbatim>\<open>ValueError\<close> (here \<open>None\<close>).
\<close>

definition is_space :: "char \<Rightarrow> bool" where
  "is_space c = (c \<in> set [CHR '' '', CHR 0x09, CHR 0x0A, CHR 0x0B, CHR 0x0C, CHR 0x0D])"

definition hex_val :: "char \<Rightarrow> nat option" where
  "hex_val c =
     (let n = of_char c :: nat in
      if 48 \<le> n \<and> n \<le> 57 then Some (n - 48)
      else if 97 \<le> n \<and> n \<le> 102 then Some (n - 87)
      else if 65 \<le> n \<and> n \<le> 70 then Some (n - 55)
      else None)"

fun bytes_fromhex :: "string \<Rightarrow> bytes option" where
  "bytes_fromhex [] = Some []"
| "bytes_fromhex [c] = (if is_space c then Some [] else None)"
| "bytes_fromhex (c # d # cs) =
     (if is_space c then bytes_fromhex (d # cs)
      else (case (hex_val c, hex_val d) of
              (Some hi, Some lo) \<Rightarrow> map_option ((#) (char_of (16 * hi + lo))) (bytes_fromhex cs)
            | _ \<Rightarrow> None))"

section \<open>Events, the Nostr library and the environment\<close>

text \<open>
  The event object of the Nostr library: the seven attributes \<^verbatim>\<open>to_dict()\<close> puts on
  the wire. The JSON text \<^verbatim>\<open>json.dumps(event.to_dict())\<close> is represented by the event
  it encodes.
\<close>

type_synonym tag = "string list"

record event =
  ev_id :: string
  ev_pubkey :: string
  ev_created_at :: int
  ev_kind :: int
  ev_tags :: "tag list"
  ev_content :: string
  ev_sig :: string

text \<open>A \<^verbatim>\<open>PrivateKey\<close> object is represented by its raw secret.\<close>

type_synonym privkey = bytes

text \<open>
  The package \<^verbatim>\<open>nostr\<close> is not part of the repository, so what its calls return is a
  parameter. A call returns a value or raises (\<open>Inl\<close>); the two conversions to
  hexadecimal text, and \<^verbatim>\<open>to_dict\<close>, are taken to succeed. A call that raises leaves the
  event it was given unchanged.
  \<^item> \<open>from_nsec\<close>: \<^verbatim>\<open>PrivateKey.from_nsec(s)\<close>
  \<^item> \<open>private_key\<close>: \<^verbatim>\<open>PrivateKey(raw)\<close>
  \<^item> \<open>public_key_hex\<close>: \<^verbatim>\<open>private_key.public_key.hex()\<close>
  \<^item> \<open>private_key_hex\<close>: \<^verbatim>\<open>private_key.hex()\<close>
  \<^item> \<open>event_pub_key\<close>: \<^verbatim>\<open>Event(kind=, content=, tags=, pub_key=, created_at=)\<close>
  \<^item> \<open>event_pubkey\<close>: \<^verbatim>\<open>Event(kind=, content=, tags=, pubkey=, created_at=)\<close>
  \<^item> \<open>event_empty\<close>: \<^verbatim>\<open>Event()\<close>
  \<^item> \<open>event_sign\<close>: \<^verbatim>\<open>event.sign(hex)\<close>, returning the event as the call leaves it
  \<^item> \<open>from_hex\<close>: \<^verbatim>\<open>PrivateKey.from_hex(hex)\<close>
  \<^item> \<open>sign_event_id\<close>: \<^verbatim>\<open>pk.sign_event_id(event.id)\<close>
\<close>

record nostr_lib =
  from_nsec :: "string \<Rightarrow> exn + privkey"
  private_key :: "bytes \<Rightarrow> exn + privkey"
  public_key_hex :: "privkey \<Rightarrow> string"
  private_key_hex :: "privkey \<Rightarrow> string"
  event_pub_key :: "int \<Rightarrow> string \<Rightarrow> tag list \<Rightarrow> string \<Rightarrow> int \<Rightarrow> exn + event"
  event_pubkey :: "int \<Rightarrow> string \<Rightarrow> tag list \<Rightarrow> string \<Rightarrow> int \<Rightarrow> exn + event"
  event_empty :: "exn + event"
  event_sign :: "event \<Rightarrow> string \<Rightarrow> exn + event"
  from_hex :: "string \<Rightarrow> exn + privkey"
  sign_event_id :: "privkey \<Rightarrow> string \<Rightarrow> exn + string"

text \<open>The module constant \<^verbatim>\<open>NOSTR_LIB\<close>, set by the imports at the top of the file.\<close>

datatype nostr_lib_kind = NostrPython | Nostr | Custom

text \<open>One HTTP request as \<^verbatim>\<open>requests.post\<close> sends it, and the response it returns.\<close>

record request =
  req_url :: string
  req_auth :: event
  req_filename :: "string option"
  req_body :: bytes
  req_content_type :: "string option"

record response =
  status_code :: int
  resp_text :: string
  resp_json :: "exn + pyval"

text \<open>
  Everything outside the program:
  \<^item> \<open>time_now k\<close>: \<^verbatim>\<open>int(time.time())\<close> at the \<open>k\<close>-th reading of the clock;
  \<^item> \<open>fs\<close>: the regular files, by path, with their content;
  \<^item> \<open>transport a r\<close>: what \<^verbatim>\<open>requests.post\<close> does with request \<open>r\<close> on attempt \<open>a\<close>;
  \<^item> \<open>sha256_hexdigest\<close>: \<^verbatim>\<open>hashlib.sha256(b).hexdigest()\<close>;
  \<^item> \<open>json_dumps\<close>: \<^verbatim>\<open>json.dumps\<close>;
  \<^item> \<open>b64decode\<close>: \<^verbatim>\<open>base64.b64decode\<close>;
  \<^item> \<open>py_int\<close>: \<^verbatim>\<open>int(s)\<close> on a string.
\<close>

record env =
  NOSTR_LIB :: nostr_lib_kind
  lib :: nostr_lib
  time_now :: "nat \<Rightarrow> int"
  fs :: "string \<Rightarrow> bytes option"
  transport :: "nat \<Rightarrow> request \<Rightarrow> exn + response"
  sha256_hexdigest :: "bytes \<Rightarrow> string"
  json_dumps :: "pyval \<Rightarrow> string"
  b64decode :: "string \<Rightarrow> exn + bytes"
  py_int :: "string \<Rightarrow> exn + int"

section \<open>The state of a run\<close>

text \<open>An open file object: the bytes of the file, the read position, whether closed.\<close>

record handle =
  h_data :: bytes
  h_pos :: nat
  h_closed :: bool

text \<open>
  What a run does that can be observed, in the order it happens. \<open>SetOutput\<close> is a call
  of \<^verbatim>\<open>set_output\<close>, \<open>Sleep\<close> one of \<^verbatim>\<open>time.sleep\<close>, \<open>Post\<close> one of \<^verbatim>\<open>requests.post\<close>.
  \<open>CreateAuthEvent u\<close> marks a call of \<^verbatim>\<open>create_auth_event\<close> with \<^verbatim>\<open>unique_id\<close> \<open>u\<close>,
  \<open>EventBuild\<close> that the construction of the event was reached, \<open>EventSign\<close> that its
  signing was reached. What \<^verbatim>\<open>print\<close> writes is left out.
\<close>

datatype effect =
    SetOutput string pyval
  | Sleep nat
  | Post request
  | CreateAuthEvent string
  | EventBuild
  | EventSign

record world =
  clock_reads :: nat
  handles :: "handle list"
  trace :: "effect list"

definition world0 :: world where
  "world0 = \<lparr>clock_reads = 0, handles = [], trace = []\<rparr>"

definition emit :: "effect \<Rightarrow> world \<Rightarrow> world" where
  "emit e w = w\<lparr>trace := trace w @ [e]\<rparr>"

definition read_clock :: "env \<Rightarrow> world \<Rightarrow> int \<times> world" where
  "read_clock E w = (time_now E (clock_reads w), w\<lparr>clock_reads := Suc (clock_reads w)\<rparr>)"

text \<open>The attributes of a \<^verbatim>\<open>BlossomUploader\<close>.\<close>

record uploader =
  host :: string
  nsec_key :: string
  file_path :: string
  content_type :: string
  unique_id :: string
  retries :: int

section \<open>The signer: \<^verbatim>\<open>create_auth_event\<close>\<close>

text \<open>Lines 58--65: the private key from its \<^verbatim>\<open>nsec\<close> or hexadecimal text.\<close>

definition decode_key :: "nostr_lib \<Rightarrow> string \<Rightarrow> exn + privkey" where
  "decode_key L key =
     (if prefix ''nsec'' key then from_nsec L key
      else (case bytes_fromhex key of
              None \<Rightarrow> Inl (Exn ValueError ''Invalid private key format'')
            | Some raw \<Rightarrow>
                (case private_key L raw of
                   Inl e \<Rightarrow> Inl (Exn ValueError ''Invalid private key format'')
                 | Inr k \<Rightarrow> Inr k)))"

definition auth_tags :: "uploader \<Rightarrow> tag list" where
  "auth_tags self =
     [[''u'', host self @ ''/upload''], [''method'', ''POST''], [''payload'', unique_id self]]"

text \<open>
  Lines 71--110: the three shapes of the constructor. A \<^verbatim>\<open>TypeError\<close> of the first
  leads to the second when its message names \<^verbatim>\<open>pub_key\<close>, to the third otherwise; every
  other exception, and one raised inside the handler, leaves the function.
\<close>

definition build_event :: "nostr_lib \<Rightarrow> uploader \<Rightarrow> string \<Rightarrow> int \<Rightarrow> exn + event" where
  "build_event L self pubkey timestamp =
     (case event_pub_key L 27235 '''' (auth_tags self) pubkey timestamp of
        Inr ev \<Rightarrow> Inr ev
      | Inl e \<Rightarrow>
          if exn_class_of e = TypeError then
            (if py_in ''pub_key'' (str_of e)
             then event_pubkey L 27235 '''' (auth_tags self) pubkey timestamp
             else (case event_empty L of
                     Inl e' \<Rightarrow> Inl e'
                   | Inr ev \<Rightarrow>
                       Inr (ev\<lparr>ev_kind := 27235, ev_content := '''', ev_tags := auth_tags self,
                              ev_pubkey := pubkey, ev_created_at := timestamp\<rparr>)))
          else Inl e)"

text \<open>
  Lines 125--129, the last resort: the identifier is hashed from the list
  \<^verbatim>\<open>[0, pubkey, created_at, kind, tags, content]\<close> and the signature is a fixed text.
\<close>

definition id_preimage :: "event \<Rightarrow> pyval" where
  "id_preimage ev =
     PList [PInt 0, PStr (ev_pubkey ev), PInt (ev_created_at ev), PInt (ev_kind ev),
            PList (map (\<lambda>t. PList (map PStr t)) (ev_tags ev)), PStr (ev_content ev)]"

definition manual_sign :: "env \<Rightarrow> event \<Rightarrow> event" where
  "manual_sign E ev =
     ev\<lparr>ev_id := sha256_hexdigest E (json_dumps E (id_preimage ev)),
        ev_sig := ''placeholder_signature''\<rparr>"

text \<open>
  Lines 112--129: \<^verbatim>\<open>event.sign\<close>; on \<^verbatim>\<open>AttributeError\<close> or \<^verbatim>\<open>TypeError\<close> the signature of
  \<^verbatim>\<open>sign_event_id\<close>; on any exception of that, the last resort.
\<close>

definition sign_event :: "env \<Rightarrow> event \<Rightarrow> privkey \<Rightarrow> exn + event" where
  "sign_event E ev k =
     (case event_sign (lib E) ev (private_key_hex (lib E) k) of
        Inr ev' \<Rightarrow> Inr ev'
      | Inl e \<Rightarrow>
          if exn_class_of e = AttributeError \<or> exn_class_of e = TypeError then
            (case from_hex (lib E) (private_key_hex (lib E) k) of
               Inl _ \<Rightarrow> Inr (manual_sign E ev)
             | Inr pk \<Rightarrow>
                 (case sign_event_id (lib E) pk (ev_id ev) of
                    Inl _ \<Rightarrow> Inr (manual_sign E ev)
                  | Inr s \<Rightarrow> Inr (ev\<lparr>ev_sig := s\<rparr>)))
          else Inl e)"

text \<open>
  \<^verbatim>\<open>_create_auth_event_nostr_python\<close>. The outer handler prints and raises again, so
  an exception of any step is the result.
\<close>

definition create_auth_event_nostr_python :: "env \<Rightarrow> uploader \<Rightarrow> world \<Rightarrow> (exn + event) \<times> world" where
  "create_auth_event_nostr_python E self w =
     (case decode_key (lib E) (nsec_key self) of
        Inl e \<Rightarrow> (Inl e, w)
      | Inr k \<Rightarrow>
          (let pubkey = public_key_hex (lib E) k;
               (timestamp, w1) = read_clock E w;
               w2 = emit EventBuild w1
           in case build_event (lib E) self pubkey timestamp of
                Inl e \<Rightarrow> (Inl e, w2)
              | Inr ev \<Rightarrow> (sign_event E ev k, emit EventSign w2)))"

text \<open>
  \<^verbatim>\<open>_create_auth_event_custom\<close>: after the \<^verbatim>\<open>nsec\<close> text is decoded it raises
  \<^verbatim>\<open>NotImplementedError\<close> in every case.
\<close>

definition custom_message :: string where
  "custom_message =
     ''Custom Nostr implementation not available. Please install nostr-python: pip install nostr''"

definition create_auth_event_custom :: "env \<Rightarrow> uploader \<Rightarrow> exn + event" where
  "create_auth_event_custom E self =
     (if prefix ''nsec'' (nsec_key self) then
        (let data = drop 4 (nsec_key self);
             padded = data @ replicate (nat ((- int (length data)) mod 4)) CHR ''=''
         in case b64decode E padded of
              Inl _ \<Rightarrow> Inl (Exn ValueError ''Invalid nsec format'')
            | Inr _ \<Rightarrow> Inl (Exn NotImplementedError custom_message))
      else Inl (Exn NotImplementedError custom_message))"

definition create_auth_event :: "env \<Rightarrow> uploader \<Rightarrow> world \<Rightarrow> (exn + event) \<times> world" where
  "create_auth_event E self w =
     (let w0 = emit (CreateAuthEvent (unique_id self)) w in
      case NOSTR_LIB E of
        NostrPython \<Rightarrow> create_auth_event_nostr_python E self w0
      | Nostr \<Rightarrow>
          (Inl (Exn NotImplementedError ''Support for 'nostr' library not implemented''), w0)
      | Custom \<Rightarrow> (create_auth_event_custom E self, w0))"

section \<open>Files\<close>

text \<open>
  \<^verbatim>\<open>open(path, 'rb')\<close> on an existing file puts a new file object into the store and
  returns its index; \<^verbatim>\<open>fp.read()\<close> returns the bytes from the read position to the end
  and leaves the position at the end. \<^verbatim>\<open>requests\<close> reads the file object it is given in
  \<^verbatim>\<open>files=\<close> with \<^verbatim>\<open>read()\<close> when it prepares the body, and never rewinds or closes it.
  An index is only ever one that \<open>open_rb\<close> returned; for any other, \<open>read_rest\<close> reads
  nothing.
\<close>

definition open_rb :: "bytes \<Rightarrow> world \<Rightarrow> nat \<times> world" where
  "open_rb content w =
     (length (handles w),
      w\<lparr>handles := handles w @ [\<lparr>h_data = content, h_pos = 0, h_closed = False\<rparr>]\<rparr>)"

definition read_rest :: "nat \<Rightarrow> world \<Rightarrow> bytes \<times> world" where
  "read_rest h w =
     (if h < length (handles w) then
        (let f = handles w ! h
         in (drop (h_pos f) (h_data f),
             w\<lparr>handles := (handles w)[h := f\<lparr>h_pos := length (h_data f)\<rparr>]\<rparr>))
      else ([], w))"

text \<open>\<^verbatim>\<open>iter(lambda: f.read(n), b"")\<close>: blocks of \<open>n\<close> bytes up to the first empty one.\<close>

function read_blocks :: "nat \<Rightarrow> bytes \<Rightarrow> bytes list" where
  "read_blocks n bs = (if n = 0 \<or> bs = [] then [] else take n bs # read_blocks n (drop n bs))"
  by pat_completeness auto
termination
  by (relation "measure (\<lambda>(n, bs). length bs)") auto

declare read_blocks.simps [simp del]

text \<open>
  Lines 180--185: the digest of the file, block by block. \<^verbatim>\<open>update\<close> appends to what
  the hash object has been fed, \<^verbatim>\<open>hexdigest\<close> is the digest of all of it. The file
  object of the \<^verbatim>\<open>with\<close> block ends read to the end and closed.
\<close>

definition hash_file :: "env \<Rightarrow> bytes \<Rightarrow> world \<Rightarrow> string \<times> world" where
  "hash_file E content w =
     (sha256_hexdigest E (foldl (@) [] (read_blocks 4096 content)),
      w\<lparr>handles := handles w @ [\<lparr>h_data = content, h_pos = length content, h_closed = True\<rparr>]\<rparr>)"

text \<open>\<^verbatim>\<open>Path(p).name\<close> of a regular file: what follows the last slash.\<close>

definition path_name :: "string \<Rightarrow> string" where
  "path_name p = rev (takeWhile (\<lambda>c. c \<noteq> CHR ''/'') (rev p))"

text \<open>
  The value of \<^verbatim>\<open>files['file']\<close>: a file object, or the triple of a name, a file
  object and a content type.
\<close>

datatype file_part = Bare nat | Named string nat string

fun part_handle :: "file_part \<Rightarrow> nat" where
  "part_handle (Bare h) = h"
| "part_handle (Named _ h _) = h"

fun part_name :: "file_part \<Rightarrow> string option" where
  "part_name (Bare _) = None"
| "part_name (Named n _ _) = Some n"

fun part_type :: "file_part \<Rightarrow> string option" where
  "part_type (Bare _) = None"
| "part_type (Named _ _ t) = Some t"

section \<open>The orchestrator: \<^verbatim>\<open>upload\<close>\<close>

definition set_output :: "string \<Rightarrow> pyval \<Rightarrow> world \<Rightarrow> world" where
  "set_output name v w = emit (SetOutput name v) w"

text \<open>
  Lines 209--213. The header \<^verbatim>\<open>Authorization: Nostr <event>\<close> is the field \<open>req_auth\<close>.
  An exception of the transport is one raised while sending, after the body was read.
\<close>

definition build_request :: "string \<Rightarrow> event \<Rightarrow> file_part \<Rightarrow> bytes \<Rightarrow> request" where
  "build_request url auth files body =
     \<lparr>req_url = url, req_auth = auth, req_filename = part_name files,
      req_body = body, req_content_type = part_type files\<rparr>"

definition requests_post ::
  "env \<Rightarrow> nat \<Rightarrow> string \<Rightarrow> event \<Rightarrow> file_part \<Rightarrow> world \<Rightarrow> (exn + response) \<times> world" where
  "requests_post E attempt url auth files w =
     (let (body, w1) = read_rest (part_handle files) w;
          req = build_request url auth files body
      in (transport E attempt req, emit (Post req) w1))"

text \<open>Lines 237--238 and 241--242: the wait before the next attempt.\<close>

definition backoff :: "uploader \<Rightarrow> nat \<Rightarrow> world \<Rightarrow> world" where
  "backoff self attempt w =
     (if int attempt < retries self - 1 then emit (Sleep (2 ^ attempt)) w else w)"

text \<open>
  One pass of the loop of lines 206--242, on the uploader, the current
  \<^verbatim>\<open>Authorization\<close> event and the world. \<open>Some True\<close> is \<^verbatim>\<open>return True\<close>; \<open>None\<close> goes on
  to the next attempt. Whatever is raised inside the \<^verbatim>\<open>try\<close> (by the transport, by
  \<^verbatim>\<open>response.json()\<close>, by \<^verbatim>\<open>result.get\<close> on a value that is no dictionary, by
  \<^verbatim>\<open>create_auth_event\<close>) is caught by the handler of line 239.
\<close>

definition attempt_step ::
  "env \<Rightarrow> file_part \<Rightarrow> string \<Rightarrow> nat \<Rightarrow> nat \<Rightarrow> uploader \<times> event \<times> world \<Rightarrow>
     bool option \<times> uploader \<times> event \<times> world" where
  "attempt_step E files file_hash file_size attempt s =
     (case s of (self, auth, w) \<Rightarrow>
       (case requests_post E attempt (host self @ ''/upload'') auth files w of
          (Inl e, w1) \<Rightarrow> (None, self, auth, backoff self attempt w1)
        | (Inr resp, w1) \<Rightarrow>
            if status_code resp = 200 then
              (case resp_json resp of
                 Inr (PDict result) \<Rightarrow>
                   (Some True, self, auth,
                    set_output ''success'' (PStr ''true'')
                     (set_output ''size'' (PStr (str_nat file_size))
                       (set_output ''hash'' (dict_get result ''hash'' (PStr file_hash))
                         (set_output ''url'' (dict_get result ''url'' (PStr '''')) w1))))
               | _ \<Rightarrow> (None, self, auth, backoff self attempt w1))
            else if py_in ''Auth event already used'' (resp_text resp) then
              (let (t, w2) = read_clock E w1;
                   self' = self\<lparr>unique_id := str_int t @ ''-'' @ str_nat attempt\<rparr>
               in case create_auth_event E self' w2 of
                    (Inl e, w3) \<Rightarrow> (None, self', auth, backoff self' attempt w3)
                  | (Inr auth', w3) \<Rightarrow> (None, self', auth', backoff self' attempt w3))
            else (None, self, auth, backoff self attempt w1)))"

text \<open>\<^verbatim>\<open>for attempt in range(self.retries)\<close>, over the list of the attempts left.\<close>

fun upload_loop ::
  "env \<Rightarrow> file_part \<Rightarrow> string \<Rightarrow> nat \<Rightarrow> nat list \<Rightarrow> uploader \<times> event \<times> world \<Rightarrow>
     bool option \<times> uploader \<times> event \<times> world" where
  "upload_loop E files file_hash file_size [] s = (None, s)"
| "upload_loop E files file_hash file_size (attempt # rest) s =
     (case attempt_step E files file_hash file_size attempt s of
        (Some r, s') \<Rightarrow> (Some r, s')
      | (None, s') \<Rightarrow> upload_loop E files file_hash file_size rest s')"

text \<open>
  \<^verbatim>\<open>upload\<close>. \<open>Inl\<close> is an exception that leaves the method (the file is gone), \<open>Inr\<close>
  the value it returns. The uploader comes back as the method leaves it.
\<close>

definition open_files :: "uploader \<Rightarrow> bytes \<Rightarrow> world \<Rightarrow> file_part \<times> world" where
  "open_files self content w =
     (let (h1, w1) = open_rb content w
      in if content_type self \<noteq> '''' then
           (let (h2, w2) = open_rb content w1
            in (Named (path_name (file_path self)) h2 (content_type self), w2))
         else (Bare h1, w1))"

definition upload :: "env \<Rightarrow> uploader \<Rightarrow> world \<Rightarrow> (exn + bool) \<times> uploader \<times> world" where
  "upload E self w =
     (case fs E (file_path self) of
        None \<Rightarrow> (Inl (Exn FileNotFoundError (file_path self)), self, w)
      | Some content \<Rightarrow>
          (let file_size = length content;
               (file_hash, w1) = hash_file E content w;
               (files, w2) = open_files self content w1
           in case create_auth_event E self w2 of
                (Inl e, w3) \<Rightarrow>
                  (Inr False, self,
                   set_output ''error'' (PStr (str_of e))
                     (set_output ''success'' (PStr ''false'') w3))
              | (Inr auth, w3) \<Rightarrow>
                  (case upload_loop E files file_hash file_size [0..<nat (retries self)]
                          (self, auth, w3) of
                     (Some r, self', _, w4) \<Rightarrow> (Inr r, self', w4)
                   | (None, self', _, w4) \<Rightarrow>
                       (Inr False, self',
                        set_output ''error''
                          (PStr (''Failed after '' @ str_int (retries self') @ '' attempts''))
                          (set_output ''success'' (PStr ''false'') w4)))))"

section \<open>Construction and \<^verbatim>\<open>main\<close>\<close>

text \<open>
  \<^verbatim>\<open>BlossomUploader.__init__\<close>: the clock is read only when no \<^verbatim>\<open>unique_id\<close> is given;
  \<^verbatim>\<open>int(retries)\<close> comes before the test that the file exists.
\<close>

definition init ::
  "env \<Rightarrow> string \<Rightarrow> string \<Rightarrow> string \<Rightarrow> string \<Rightarrow> string \<Rightarrow> string \<Rightarrow> world \<Rightarrow>
     (exn + uploader) \<times> world" where
  "init E host_arg key_arg path_arg type_arg uid_arg retries_arg w =
     (let (uid, w1) = (if uid_arg \<noteq> '''' then (uid_arg, w)
                       else (let (t, w') = read_clock E w in (str_int t, w')))
      in case py_int E retries_arg of
           Inl e \<Rightarrow> (Inl e, w1)
         | Inr r \<Rightarrow>
             if fs E path_arg = None
             then (Inl (Exn FileNotFoundError (''File not found: '' @ path_arg)), w1)
             else (Inr \<lparr>host = rstrip_slash host_arg, nsec_key = key_arg, file_path = path_arg,
                        content_type = type_arg, unique_id = uid, retries = r\<rparr>, w1))"

definition environ_get :: "(string \<Rightarrow> string option) \<Rightarrow> string \<Rightarrow> string \<Rightarrow> string" where
  "environ_get environ k d = (case environ k of None \<Rightarrow> d | Some v \<Rightarrow> v)"

text \<open>\<^verbatim>\<open>main\<close>, with the exit status of the process: 1 for \<^verbatim>\<open>sys.exit(1)\<close>, 0 otherwise.\<close>

definition main :: "env \<Rightarrow> (string \<Rightarrow> string option) \<Rightarrow> world \<Rightarrow> int \<times> world" where
  "main E environ w =
     (let host_in = environ_get environ ''INPUT_HOST'' ''https://blossom.swissdash.site'';
          path_in = environ_get environ ''INPUT_FILEPATH'' '''';
          key_in = environ_get environ ''INPUT_NOSTRPRIVATEKEY'' '''';
          type_in = environ_get environ ''INPUT_CONTENTTYPE'' '''';
          uid_in = environ_get environ ''INPUT_UNIQUEID'' '''';
          retries_in = environ_get environ ''INPUT_RETRIES'' ''3''
      in if path_in = '''' then (1, w)
         else if key_in = '''' then (1, w)
         else (case init E host_in key_in path_in type_in uid_in retries_in w of
                 (Inl e, w1) \<Rightarrow> (1, w1)
               | (Inr uploader, w1) \<Rightarrow>
                   (case upload E uploader w1 of
                      (Inl e, _, w2) \<Rightarrow> (1, w2)
                    | (Inr success, _, w2) \<Rightarrow> (if success then 0 else 1, w2))))"

section \<open>Reading a trace\<close>

fun posts :: "effect list \<Rightarrow> request list" where
  "posts [] = []"
| "posts (Post r # es) = r # posts es"
| "posts (_ # es) = posts es"

fun sleeps :: "effect list \<Rightarrow> nat list" where
  "sleeps [] = []"
| "sleeps (Sleep n # es) = n # sleeps es"
| "sleeps (_ # es) = sleeps es"

fun outputs :: "effect list \<Rightarrow> (string \<times> pyval) list" where
  "outputs [] = []"
| "outputs (SetOutput k v # es) = (k, v) # outputs es"
| "outputs (_ # es) = outputs es"

fun tokens_made :: "effect list \<Rightarrow> string list" where
  "tokens_made [] = []"
| "tokens_made (CreateAuthEvent u # es) = u # tokens_made es"
| "tokens_made (_ # es) = tokens_made es"

fun signing_steps :: "effect list \<Rightarrow> effect list" where
  "signing_steps [] = []"
| "signing_steps (EventBuild # es) = EventBuild # signing_steps es"
| "signing_steps (EventSign # es) = EventSign # signing_steps es"
| "signing_steps (_ # es) = signing_steps es"

text \<open>
  The token constructions, sends, waits and outputs of a run, in the order they happen.
  Of a request the \<^verbatim>\<open>Authorization\<close> event is kept.
\<close>

datatype mark =
    Minted string
  | Sent event
  | Slept nat
  | Reported string pyval

fun timeline :: "effect list \<Rightarrow> mark list" where
  "timeline [] = []"
| "timeline (CreateAuthEvent u # es) = Minted u # timeline es"
| "timeline (Post r # es) = Sent (req_auth r) # timeline es"
| "timeline (Sleep n # es) = Slept n # timeline es"
| "timeline (SetOutput k v # es) = Reported k v # timeline es"
| "timeline (_ # es) = timeline es"

section \<open>Notions the properties speak of\<close>

text \<open>
  What \<^verbatim>\<open>create_auth_event\<close> returns when the clock has been read \<open>c\<close> times; the rest
  of the world has no part in it.
\<close>

definition signer :: "env \<Rightarrow> uploader \<Rightarrow> nat \<Rightarrow> exn + event" where
  "signer E self c = fst (create_auth_event E self (world0\<lparr>clock_reads := c\<rparr>))"

text \<open>
  An event is self-consistent when its identifier is the digest of the serialised list
  \<^verbatim>\<open>[0, pubkey, created_at, kind, tags, content]\<close> and its signature verifies against
  its public key and identifier. The verification of the signature scheme is a
  parameter: \<open>verifies pubkey id sig\<close>.
\<close>

definition self_consistent :: "env \<Rightarrow> (string \<Rightarrow> string \<Rightarrow> string \<Rightarrow> bool) \<Rightarrow> event \<Rightarrow> bool" where
  "self_consistent E verifies ev =
     (ev_id ev = sha256_hexdigest E (json_dumps E (id_preimage ev)) \<and>
      verifies (ev_pubkey ev) (ev_id ev) (ev_sig ev))"

text \<open>
  A response that is a generic failure: the status is not 200 and the body does not say
  that the event was already used.
\<close>

definition generic_failure :: "response \<Rightarrow> bool" where
  "generic_failure resp =
     (status_code resp \<noteq> 200 \<and> \<not> py_in ''Auth event already used'' (resp_text resp))"

text \<open>A response that says the event was already used.\<close>

definition replay_failure :: "response \<Rightarrow> bool" where
  "replay_failure resp =
     (status_code resp \<noteq> 200 \<and> py_in ''Auth event already used'' (resp_text resp))"

section \<open>Test doubles\<close>

text \<open>
  A library every call of which succeeds. Its \<^verbatim>\<open>event.sign\<close> sets the identifier to
  the digest of the serialised list and the signature to a text made of the secret
  and the identifier, which \<open>demo_verifies\<close> checks against a public key.
\<close>

definition demo_sha256 :: "bytes \<Rightarrow> string" where
  "demo_sha256 b =
     (if b = ''hello''
      then ''2cf24dba5fb0a30e26e83b2ac5b9e29e1b161e5c1fa7425e73043362938b9824''
      else ''digest-of('' @ b @ '')'')"

fun demo_json :: "pyval \<Rightarrow> string" where
  "demo_json PNone = ''null''"
| "demo_json (PBool b) = (if b then ''true'' else ''false'')"
| "demo_json (PInt i) = str_int i"
| "demo_json (PStr s) = CHR 0x22 # s @ [CHR 0x22]"
| "demo_json (PList vs) = ''['' @ concat (map (\<lambda>v. demo_json v @ '','') vs) @ '']''"
| "demo_json (PDict kvs) = ''{'' @ concat (map (\<lambda>(k, v). k @ '':'' @ demo_json v @ '','') kvs) @ ''}''"

definition demo_event :: "int \<Rightarrow> string \<Rightarrow> tag list \<Rightarrow> string \<Rightarrow> int \<Rightarrow> event" where
  "demo_event kind content tags pub created =
     \<lparr>ev_id = '''', ev_pubkey = pub, ev_created_at = created, ev_kind = kind,
      ev_tags = tags, ev_content = content, ev_sig = ''''\<rparr>"

definition demo_signature :: "string \<Rightarrow> string \<Rightarrow> string" where
  "demo_signature secret ident = ''sig('' @ secret @ '','' @ ident @ '')''"

definition demo_verifies :: "string \<Rightarrow> string \<Rightarrow> string \<Rightarrow> bool" where
  "demo_verifies pub ident sg = (sg = demo_signature (drop 4 pub) ident)"

definition demo_lib :: nostr_lib where
  "demo_lib =
     \<lparr>from_nsec = (\<lambda>s. if length s = 63 then Inr (drop 4 s)
                        else Inl (Exn TypeError ''NoneType object is not iterable'')),
      private_key = (\<lambda>raw. if length raw = 32 then Inr raw
                        else Inl (Exn OtherError ''invalid private key'')),
      public_key_hex = (\<lambda>k. ''pub:'' @ k),
      private_key_hex = (\<lambda>k. k),
      event_pub_key = (\<lambda>kind content tags pub created.
                         Inr (demo_event kind content tags pub created)),
      event_pubkey = (\<lambda>kind content tags pub created.
                         Inr (demo_event kind content tags pub created)),
      event_empty = Inr (demo_event 1 '''' [] '''' 0),
      event_sign = (\<lambda>ev secret.
         Inr (ev\<lparr>ev_id := demo_sha256 (demo_json (id_preimage ev)),
                 ev_sig := demo_signature secret
                             (demo_sha256 (demo_json (id_preimage ev)))\<rparr>)),
      from_hex = (\<lambda>h. Inr h),
      sign_event_id = (\<lambda>k ident. Inr (demo_signature k ident))\<rparr>"

text \<open>
  A library whose events have no method \<^verbatim>\<open>sign\<close> and whose private keys have no
  \<^verbatim>\<open>from_hex\<close>, the shape the fallbacks of lines 116--129 are written for: both calls
  raise \<^verbatim>\<open>AttributeError\<close>, every other call succeeds.
\<close>

definition nosign_lib :: nostr_lib where
  "nosign_lib =
     demo_lib\<lparr>event_sign := (\<lambda>ev secret.
                  Inl (Exn AttributeError ''Event object has no attribute sign'')),
              from_hex := (\<lambda>h.
                  Inl (Exn AttributeError ''PrivateKey has no attribute from_hex''))\<rparr>"

text \<open>A library whose signing fails for every nonce with a dash in it.\<close>

definition flaky_lib :: nostr_lib where
  "flaky_lib =
     demo_lib\<lparr>event_sign := (\<lambda>ev secret.
                  if list_ex (\<lambda>t. list_ex (\<lambda>s. CHR ''-'' \<in> set s) t) (ev_tags ev)
                  then Inl (Exn OtherError ''signing failed'')
                  else event_sign demo_lib ev secret)\<rparr>"

text \<open>A transport that answers attempt \<open>a\<close> with the \<open>a\<close>-th entry of a script.\<close>

definition scripted :: "(exn + response) list \<Rightarrow> nat \<Rightarrow> request \<Rightarrow> exn + response" where
  "scripted rs a r =
     (if a < length rs then rs ! a else Inl (Exn OtherError ''connection refused''))"

definition http_500 :: response where
  "http_500 = \<lparr>status_code = 500, resp_text = ''Internal Server Error'',
               resp_json = Inl (Exn ValueError ''Expecting value'')\<rparr>"

definition http_replayed :: response where
  "http_replayed = \<lparr>status_code = 401, resp_text = ''Auth event already used'',
                    resp_json = Inl (Exn ValueError ''Expecting value'')\<rparr>"

definition http_ok :: response where
  "http_ok = \<lparr>status_code = 200, resp_text = ''{}'',
              resp_json = Inr (PDict [(''url'', PStr ''https://cdn.example/blob'')])\<rparr>"

definition demo_key :: string where
  "demo_key = ''0101010101010101010101010101010101010101010101010101010101010101''"

definition demo_env :: "nostr_lib \<Rightarrow> (exn + response) list \<Rightarrow> env" where
  "demo_env L script =
     \<lparr>NOSTR_LIB = NostrPython, lib = L,
      time_now = (\<lambda>k. 1700000000 + int k),
      fs = (\<lambda>p. if p = ''blob.bin'' then Some ''hello'' else None),
      transport = scripted script,
      sha256_hexdigest = demo_sha256,
      json_dumps = demo_json,
      b64decode = (\<lambda>s. Inr s),
      py_int = (\<lambda>s. if s = ''3'' then Inr 3 else Inl (Exn ValueError ''invalid literal''))\<rparr>"

definition demo_uploader :: "string \<Rightarrow> int \<Rightarrow> uploader" where
  "demo_uploader uid n =
     \<lparr>host = ''https://blossom.example'', nsec_key = demo_key, file_path = ''blob.bin'',
      content_type = '''', unique_id = uid, retries = n\<rparr>"

definition demo_environ :: "string \<Rightarrow> string \<Rightarrow> string option" where
  "demo_environ path k =
     (if k = ''INPUT_FILEPATH'' then Some path
      else if k = ''INPUT_NOSTRPRIVATEKEY'' then Some demo_key
      else if k = ''INPUT_HOST'' then Some ''https://blossom.example/''
      else None)"

section \<open>Lemmas about traces and the signer\<close>

lemma posts_append: "posts (xs @ ys) = posts xs @ posts ys"
  by (induction xs rule: posts.induct) simp_all

lemma sleeps_append: "sleeps (xs @ ys) = sleeps xs @ sleeps ys"
  by (induction xs rule: sleeps.induct) simp_all

lemma outputs_append: "outputs (xs @ ys) = outputs xs @ outputs ys"
  by (induction xs rule: outputs.induct) simp_all

lemma tokens_made_append: "tokens_made (xs @ ys) = tokens_made xs @ tokens_made ys"
  by (induction xs rule: tokens_made.induct) simp_all

lemma signing_steps_append: "signing_steps (xs @ ys) = signing_steps xs @ signing_steps ys"
  by (induction xs rule: signing_steps.induct) simp_all

lemma timeline_append: "timeline (xs @ ys) = timeline xs @ timeline ys"
  by (induction xs rule: timeline.induct) simp_all

lemmas proj_append =
  posts_append sleeps_append outputs_append tokens_made_append signing_steps_append
  timeline_append

lemma trace_emit: "trace (emit e w) = trace w @ [e]"
  by (simp add: emit_def)

lemma clock_emit: "clock_reads (emit e w) = clock_reads w"
  by (simp add: emit_def)

lemma handles_emit: "handles (emit e w) = handles w"
  by (simp add: emit_def)

lemma trace_set_output: "trace (set_output k v w) = trace w @ [SetOutput k v]"
  by (simp add: set_output_def emit_def)

lemma trace_backoff:
  "trace (backoff self a w) =
     trace w @ (if int a < retries self - 1 then [Sleep (2 ^ a)] else [])"
  by (simp add: backoff_def emit_def)

lemma clock_backoff: "clock_reads (backoff self a w) = clock_reads w"
  by (simp add: backoff_def emit_def)

text \<open>The signer: what it returns depends on the clock only, and it only adds to the trace.\<close>

lemma nostr_python_result:
  "fst (create_auth_event_nostr_python E self w) =
     fst (create_auth_event_nostr_python E self (world0\<lparr>clock_reads := clock_reads w\<rparr>))"
  by (simp add: create_auth_event_nostr_python_def read_clock_def emit_def world0_def Let_def
      split: sum.splits)

lemma create_auth_event_result:
  "fst (create_auth_event E self w) = signer E self (clock_reads w)"
  unfolding signer_def create_auth_event_def Let_def
  by (cases "NOSTR_LIB E")
     (simp_all add: nostr_python_result [of E self "emit _ _"] clock_emit world0_def)

lemma nostr_python_trace:
  "\<exists>ts. trace (snd (create_auth_event_nostr_python E self w)) = trace w @ ts \<and>
        posts ts = [] \<and> sleeps ts = [] \<and> outputs ts = [] \<and> tokens_made ts = []"
  by (simp add: create_auth_event_nostr_python_def read_clock_def emit_def Let_def
      split: sum.splits)

lemma create_auth_event_trace:
  "\<exists>ts. trace (snd (create_auth_event E self w)) = trace w @ ts \<and>
        posts ts = [] \<and> sleeps ts = [] \<and> outputs ts = [] \<and>
        tokens_made ts = [unique_id self]"
proof (cases "NOSTR_LIB E")
  case NostrPython
  obtain ts where ts:
    "trace (snd (create_auth_event_nostr_python E self (emit (CreateAuthEvent (unique_id self)) w)))
       = trace (emit (CreateAuthEvent (unique_id self)) w) @ ts"
    "posts ts = []" "sleeps ts = []" "outputs ts = []" "tokens_made ts = []"
    using nostr_python_trace by blast
  show ?thesis
    by (rule exI [of _ "CreateAuthEvent (unique_id self) # ts"])
       (simp add: create_auth_event_def NostrPython ts trace_emit)
next
  case Nostr
  then show ?thesis
    by (simp add: create_auth_event_def trace_emit)
next
  case Custom
  then show ?thesis
    by (simp add: create_auth_event_def trace_emit)
qed

lemma nostr_python_timeline:
  "timeline (trace (snd (create_auth_event_nostr_python E self w))) = timeline (trace w)"
  by (simp add: create_auth_event_nostr_python_def read_clock_def emit_def Let_def
      timeline_append split: sum.splits)

lemma create_auth_event_timeline:
  "timeline (trace (snd (create_auth_event E self w))) =
     timeline (trace w) @ [Minted (unique_id self)]"
  by (cases "NOSTR_LIB E")
     (simp_all add: create_auth_event_def Let_def nostr_python_timeline trace_emit
        timeline_append)

lemma create_auth_event_handles:
  "handles (snd (create_auth_event E self w)) = handles w"
  by (cases "NOSTR_LIB E")
     (simp_all add: create_auth_event_def create_auth_event_nostr_python_def read_clock_def
        emit_def Let_def split: sum.splits)

lemma create_auth_event_clock:
  "fst (create_auth_event E self w) = Inr a \<Longrightarrow>
     clock_reads (snd (create_auth_event E self w)) = Suc (clock_reads w)"
  by (cases "NOSTR_LIB E")
     (auto simp add: create_auth_event_def create_auth_event_nostr_python_def read_clock_def
        emit_def Let_def create_auth_event_custom_def split: sum.splits if_splits)


lemma trace_hash_file: "trace (snd (hash_file E content w)) = trace w"
  and clock_hash_file: "clock_reads (snd (hash_file E content w)) = clock_reads w"
  by (simp_all add: hash_file_def)

lemma trace_open_files: "trace (snd (open_files self content w)) = trace w"
  and clock_open_files: "clock_reads (snd (open_files self content w)) = clock_reads w"
  by (simp_all add: open_files_def open_rb_def Let_def)

lemma upload_unfold:
  assumes "fs E (file_path self) = Some content"
  shows "upload E self w =
     (case create_auth_event E self (snd (open_files self content (snd (hash_file E content w)))) of
        (Inl e, w3) \<Rightarrow>
          (Inr False, self,
           set_output ''error'' (PStr (str_of e)) (set_output ''success'' (PStr ''false'') w3))
      | (Inr auth, w3) \<Rightarrow>
          (case upload_loop E (fst (open_files self content (snd (hash_file E content w))))
                  (fst (hash_file E content w)) (length content) [0..<nat (retries self)]
                  (self, auth, w3) of
             (Some r, self', _, w4) \<Rightarrow> (Inr r, self', w4)
           | (None, self', _, w4) \<Rightarrow>
               (Inr False, self',
                set_output ''error''
                  (PStr (''Failed after '' @ str_int (retries self') @ '' attempts''))
                  (set_output ''success'' (PStr ''false'') w4))))"
  using assms by (simp add: upload_def Let_def case_prod_beta)

lemma signer_run:
  assumes "signer E self (clock_reads w) = Inr auth"
  shows "\<exists>w3 ts. create_auth_event E self w = (Inr auth, w3) \<and> trace w3 = trace w @ ts \<and>
           posts ts = [] \<and> sleeps ts = [] \<and> outputs ts = [] \<and>
           tokens_made ts = [unique_id self] \<and> clock_reads w3 = Suc (clock_reads w) \<and>
           handles w3 = handles w"
proof -
  have r: "fst (create_auth_event E self w) = Inr auth"
    using assms by (simp add: create_auth_event_result)
  obtain ts where ts: "trace (snd (create_auth_event E self w)) = trace w @ ts"
    "posts ts = []" "sleeps ts = []" "outputs ts = []" "tokens_made ts = [unique_id self]"
    using create_auth_event_trace by blast
  show ?thesis
    using r ts create_auth_event_clock [OF r] create_auth_event_handles [of E self w]
    by (intro exI [of _ "snd (create_auth_event E self w)"] exI [of _ ts])
       (simp add: prod_eq_iff)
qed

lemma requests_post_result:
  "fst (requests_post E a url auth files w) =
     transport E a (build_request url auth files (fst (read_rest (part_handle files) w)))"
  by (simp add: requests_post_def Let_def case_prod_beta)

lemma requests_post_trace:
  "trace (snd (requests_post E a url auth files w)) =
     trace w @ [Post (build_request url auth files (fst (read_rest (part_handle files) w)))]"
  by (simp add: requests_post_def Let_def case_prod_beta read_rest_def emit_def)

lemma requests_post_clock:
  "clock_reads (snd (requests_post E a url auth files w)) = clock_reads w"
  by (simp add: requests_post_def Let_def case_prod_beta read_rest_def emit_def)

lemma step_generic:
  assumes "fst (requests_post E a (host self @ ''/upload'') auth files w) = Inr resp"
    and "generic_failure resp"
  shows "attempt_step E files fh fsz a (self, auth, w) =
           (None, self, auth,
            backoff self a (snd (requests_post E a (host self @ ''/upload'') auth files w)))"
  using assms
  by (cases "requests_post E a (host self @ ''/upload'') auth files w")
     (simp add: attempt_step_def generic_failure_def)

lemma step_ok:
  assumes "fst (requests_post E a (host self @ ''/upload'') auth files w) = Inr resp"
    and "status_code resp = 200" and "resp_json resp = Inr (PDict result)"
  shows "attempt_step E files fh fsz a (self, auth, w) =
           (Some True, self, auth,
            set_output ''success'' (PStr ''true'')
             (set_output ''size'' (PStr (str_nat fsz))
               (set_output ''hash'' (dict_get result ''hash'' (PStr fh))
                 (set_output ''url'' (dict_get result ''url'' (PStr []))
                   (snd (requests_post E a (host self @ ''/upload'') auth files w))))))"
  using assms
  by (cases "requests_post E a (host self @ ''/upload'') auth files w")
     (simp add: attempt_step_def)

lemma step_replay:
  assumes "fst (requests_post E a (host self @ ''/upload'') auth files w) = Inr resp"
    and "replay_failure resp"
  shows "attempt_step E files fh fsz a (self, auth, w) =
           (let w1 = snd (requests_post E a (host self @ ''/upload'') auth files w);
                self' = self\<lparr>unique_id := str_int (time_now E (clock_reads w1)) @ ''-'' @ str_nat a\<rparr>;
                r = create_auth_event E self' (w1\<lparr>clock_reads := Suc (clock_reads w1)\<rparr>)
            in (None, self', (case fst r of Inl e \<Rightarrow> auth | Inr auth' \<Rightarrow> auth'),
                backoff self' a (snd r)))"
  using assms
  by (cases "requests_post E a (host self @ ''/upload'') auth files w")
     (simp add: attempt_step_def replay_failure_def read_clock_def Let_def
        split: prod.splits sum.splits)

lemma loop_generic:
  assumes "\<And>a r. a \<in> set as \<Longrightarrow> \<exists>resp. transport E a r = Inr resp \<and> generic_failure resp"
  shows "\<exists>w'. upload_loop E files fh fsz as (self, auth, w) = (None, self, auth, w') \<and>
           length (posts (trace w')) = length (posts (trace w)) + length as \<and>
           sleeps (trace w') = sleeps (trace w) @
             concat (map (\<lambda>a. if int a < retries self - 1 then [2 ^ a] else []) as) \<and>
           outputs (trace w') = outputs (trace w) \<and>
           tokens_made (trace w') = tokens_made (trace w) \<and>
           map req_auth (posts (trace w')) =
             map req_auth (posts (trace w)) @ replicate (length as) auth \<and>
           clock_reads w' = clock_reads w"
  using assms
proof (induction as arbitrary: w)
  case Nil
  show ?case by simp
next
  case (Cons a as)
  define w1 where "w1 = backoff self a (snd (requests_post E a (host self @ ''/upload'') auth files w))"
  obtain resp where resp:
    "fst (requests_post E a (host self @ ''/upload'') auth files w) = Inr resp"
    "generic_failure resp"
    using Cons.prems [of a] by (metis requests_post_result list.set_intros(1))
  have step: "attempt_step E files fh fsz a (self, auth, w) = (None, self, auth, w1)"
    using step_generic [OF resp] by (simp add: w1_def)
  have w1: "posts (trace w1) = posts (trace w) @ [build_request (host self @ ''/upload'') auth files (fst (read_rest (part_handle files) w))]"
    "sleeps (trace w1) = sleeps (trace w) @ (if int a < retries self - 1 then [2 ^ a] else [])"
    "outputs (trace w1) = outputs (trace w)"
    "tokens_made (trace w1) = tokens_made (trace w)"
    "clock_reads w1 = clock_reads w"
    by (simp_all add: w1_def trace_backoff requests_post_trace proj_append clock_backoff
          requests_post_clock)
  obtain w' where w': "upload_loop E files fh fsz as (self, auth, w1) = (None, self, auth, w')"
    "length (posts (trace w')) = length (posts (trace w1)) + length as"
    "sleeps (trace w') = sleeps (trace w1) @
       concat (map (\<lambda>a. if int a < retries self - 1 then [2 ^ a] else []) as)"
    "outputs (trace w') = outputs (trace w1)"
    "tokens_made (trace w') = tokens_made (trace w1)"
    "map req_auth (posts (trace w')) = map req_auth (posts (trace w1)) @ replicate (length as) auth"
    "clock_reads w' = clock_reads w1"
    using Cons.IH [of w1] Cons.prems by (meson list.set_intros(2))
  show ?case
    using step w' w1 by (intro exI [of _ w']) (simp add: build_request_def)
qed

text \<open>
  The order of what a loop of generic failures does: every attempt is sent with the
  token the loop was entered with, and the wait of an attempt comes after its send.
\<close>

lemma loop_generic_timeline:
  assumes "\<And>a r. a \<in> set as \<Longrightarrow> \<exists>resp. transport E a r = Inr resp \<and> generic_failure resp"
    and "upload_loop E files fh fsz as (self, auth, w) = (r, self', auth', w')"
  shows "timeline (trace w') = timeline (trace w) @
           concat (map (\<lambda>a. Sent auth # (if int a < retries self - 1 then [Slept (2 ^ a)] else []))
                     as)"
  using assms
proof (induction as arbitrary: w)
  case Nil
  then show ?case by simp
next
  case (Cons a as)
  define w1 where
    "w1 = backoff self a (snd (requests_post E a (host self @ ''/upload'') auth files w))"
  obtain resp where resp:
    "fst (requests_post E a (host self @ ''/upload'') auth files w) = Inr resp"
    "generic_failure resp"
    using Cons.prems(1) [of a] by (metis requests_post_result list.set_intros(1))
  have step: "attempt_step E files fh fsz a (self, auth, w) = (None, self, auth, w1)"
    using step_generic [OF resp] by (simp add: w1_def)
  have w1: "timeline (trace w1) = timeline (trace w) @
      Sent auth # (if int a < retries self - 1 then [Slept (2 ^ a)] else [])"
    by (simp add: w1_def trace_backoff requests_post_trace timeline_append build_request_def)
  have rest: "upload_loop E files fh fsz as (self, auth, w1) = (r, self', auth', w')"
    using Cons.prems(2) step by simp
  have later: "\<exists>resp. transport E b q = Inr resp \<and> generic_failure resp" if "b \<in> set as" for b q
    using Cons.prems(1) [of b q] that by simp
  have "timeline (trace w') = timeline (trace w1) @
      concat (map (\<lambda>a. Sent auth # (if int a < retries self - 1 then [Slept (2 ^ a)] else []))
                as)"
    using Cons.IH [OF later rest] by simp
  then show ?case
    using w1 by simp
qed

lemma timeline_before:
  assumes "int a < retries self"
  shows "concat (map (\<lambda>k. Sent auth # (if int k < retries self - 1 then [Slept (2 ^ k)] else []))
                   [0..<a]) =
         concat (map (\<lambda>k. [Sent auth, Slept (2 ^ k)]) [0..<a])"
  using assms by (intro arg_cong [where f = concat] map_cong) auto

text \<open>
  The loop over a concatenation of attempts is the loop over the first part, followed,
  unless that returned, by the loop over the second part; and before the last attempt of
  the budget every failed attempt sleeps.
\<close>

lemma upload_loop_append:
  "upload_loop E files fh fsz (xs @ ys) s =
     (case upload_loop E files fh fsz xs s of
        (Some r, s') \<Rightarrow> (Some r, s')
      | (None, s') \<Rightarrow> upload_loop E files fh fsz ys s')"
  by (induction xs arbitrary: s) (auto split: prod.splits option.splits)

lemma backoff_before:
  assumes "int a < retries self"
  shows "concat (map (\<lambda>k. if int k < retries self - 1 then [2 ^ k] else []) [0..<a]) =
           map (\<lambda>k. 2 ^ k) [0..<a]"
proof -
  have "concat (map (\<lambda>k. if int k < retries self - 1 then [2 ^ k] else []) [0..<a]) =
          concat (map (\<lambda>k. [2 ^ k]) [0..<a])"
    using assms by (intro arg_cong [where f = concat] map_cong) auto
  then show ?thesis
    by simp
qed

lemma foldl_append_concat: "foldl (@) acc xss = acc @ concat xss"
  by (induction xss arbitrary: acc) simp_all

lemma concat_read_blocks: "0 < n \<Longrightarrow> concat (read_blocks n bs) = bs"
proof (induction n bs rule: read_blocks.induct)
  case (1 n bs)
  show ?case
  proof (cases "bs = []")
    case True
    then show ?thesis by (simp add: read_blocks.simps)
  next
    case False
    then have "concat (read_blocks n bs) = take n bs @ concat (read_blocks n (drop n bs))"
      using "1.prems" by (subst read_blocks.simps) simp
    also have "\<dots> = take n bs @ drop n bs"
      using "1.IH" "1.prems" False by simp
    finally show ?thesis by simp
  qed
qed

lemma hash_file_digest: "fst (hash_file E content w) = sha256_hexdigest E content"
  by (simp add: hash_file_def foldl_append_concat concat_read_blocks)

lemma str_nat_digit: "n < 10 \<Longrightarrow> str_nat n = [digit_char n]"
  by (simp add: str_nat.simps)

section \<open>Lemmas about the test doubles\<close>

lemma decode_key_cong:
  assumes "from_nsec L = from_nsec L'" and "private_key L = private_key L'"
  shows "decode_key L key = decode_key L' key"
  using assms by (simp add: decode_key_def split: option.splits)

lemma demo_key_bytes: "map_option length (bytes_fromhex demo_key) = Some 32"
  by (simp add: demo_key_def hex_val_def is_space_def)

lemma demo_decode: "\<exists>raw. decode_key demo_lib demo_key = Inr raw"
proof -
  obtain raw where raw: "bytes_fromhex demo_key = Some raw" "length raw = 32"
    using demo_key_bytes by (cases "bytes_fromhex demo_key") auto
  have "\<not> prefix ''nsec'' demo_key"
    by (simp add: demo_key_def)
  then show ?thesis
    using raw by (simp add: decode_key_def demo_lib_def)
qed

lemma demo_env_sel:
  "NOSTR_LIB (demo_env L script) = NostrPython"
  "lib (demo_env L script) = L"
  "time_now (demo_env L script) = (\<lambda>k. 1700000000 + int k)"
  "fs (demo_env L script) ''blob.bin'' = Some ''hello''"
  "transport (demo_env L script) = scripted script"
  "sha256_hexdigest (demo_env L script) = demo_sha256"
  "json_dumps (demo_env L script) = demo_json"
  by (simp_all add: demo_env_def)

lemma demo_uploader_sel:
  "host (demo_uploader uid n) = ''https://blossom.example''"
  "nsec_key (demo_uploader uid n) = demo_key"
  "file_path (demo_uploader uid n) = ''blob.bin''"
  "content_type (demo_uploader uid n) = []"
  "unique_id (demo_uploader uid n) = uid"
  "retries (demo_uploader uid n) = n"
  by (simp_all add: demo_uploader_def)

lemma demo_build: "build_event demo_lib self pub t = Inr (demo_event 27235 [] (auth_tags self) pub t)"
  by (simp add: build_event_def demo_lib_def)

lemma demo_sign:
  "sign_event (demo_env demo_lib script) ev k =
     Inr (ev\<lparr>ev_id := demo_sha256 (demo_json (id_preimage ev)),
             ev_sig := demo_signature k (demo_sha256 (demo_json (id_preimage ev)))\<rparr>)"
  by (simp add: sign_event_def demo_env_sel) (simp add: demo_lib_def)

lemma demo_signer_ok:
  "\<exists>auth. signer (demo_env demo_lib script) self c = Inr auth" if "nsec_key self = demo_key"
proof -
  obtain raw where raw: "decode_key demo_lib demo_key = Inr raw"
    using demo_decode by blast
  show ?thesis
    using raw that
    by (simp add: signer_def create_auth_event_def create_auth_event_nostr_python_def
      demo_env_sel demo_build demo_sign Let_def read_clock_def)
qed

text \<open>The definitions that running \<^verbatim>\<open>upload\<close> on a test double unfolds.\<close>

lemmas run_defs =
  upload_def attempt_step_def requests_post_def build_request_def
  backoff_def set_output_def emit_def read_clock_def read_rest_def open_rb_def open_files_def
  hash_file_def create_auth_event_def create_auth_event_nostr_python_def
  world0_def Let_def

section \<open>Lemmas about decimal strings\<close>

lemma digit_char_mem: "d < 10 \<Longrightarrow> digit_char d \<in> set ''0123456789''"
  unfolding digit_char_def by (rule nth_mem) simp

lemma digit_char_inj:
  assumes "d < 10" and "e < 10" and "digit_char d = digit_char e"
  shows "d = e"
proof -
  have "distinct ''0123456789''"
    by simp
  then show ?thesis
    using assms unfolding digit_char_def by (simp add: nth_eq_iff_index_eq)
qed

lemma str_nat_digits: "set (str_nat n) \<subseteq> set ''0123456789''"
proof (induction n rule: str_nat.induct)
  case (1 n)
  show ?case
  proof (cases "n < 10")
    case True
    then show ?thesis
      using digit_char_mem [of n] by (simp add: str_nat_digit)
  next
    case False
    have "n mod 10 < 10"
      by simp
    then have "digit_char (n mod 10) \<in> set ''0123456789''"
      by (rule digit_char_mem)
    moreover have "str_nat n = str_nat (n div 10) @ [digit_char (n mod 10)]"
      using False by (subst str_nat.simps) simp
    ultimately show ?thesis
      using "1.IH" False by simp
  qed
qed

lemma str_nat_nonempty: "str_nat n \<noteq> []"
  by (subst str_nat.simps) simp

lemma dash_not_in_str_nat: "CHR ''-'' \<notin> set (str_nat n)"
  using str_nat_digits [of n] by auto

lemma str_nat_inj: "str_nat n = str_nat m \<Longrightarrow> n = m"
proof (induction n arbitrary: m rule: str_nat.induct)
  case (1 n)
  show ?case
  proof (cases "n < 10")
    case n: True
    show ?thesis
    proof (cases "m < 10")
      case True
      then show ?thesis
        using n "1.prems" by (simp add: str_nat_digit digit_char_inj)
    next
      case False
      then have "str_nat m = str_nat (m div 10) @ [digit_char (m mod 10)]"
        by (subst str_nat.simps) simp
      then have "length (str_nat m) \<noteq> 1"
        using str_nat_nonempty [of "m div 10"] by simp
      moreover have "length (str_nat n) = 1"
        using n by (simp add: str_nat_digit)
      ultimately show ?thesis
        using "1.prems" by simp
    qed
  next
    case n: False
    then have sn: "str_nat n = str_nat (n div 10) @ [digit_char (n mod 10)]"
      by (subst str_nat.simps) simp
    show ?thesis
    proof (cases "m < 10")
      case True
      have "length (str_nat n) \<noteq> 1"
        using sn str_nat_nonempty [of "n div 10"] by simp
      moreover have "length (str_nat m) = 1"
        using True by (simp add: str_nat_digit)
      ultimately show ?thesis
        using "1.prems" by simp
    next
      case False
      then have sm: "str_nat m = str_nat (m div 10) @ [digit_char (m mod 10)]"
        by (subst str_nat.simps) simp
      have eq: "str_nat (n div 10) = str_nat (m div 10)" "digit_char (n mod 10) = digit_char (m mod 10)"
        using "1.prems" sn sm by simp_all
      have "n div 10 = m div 10"
        using "1.IH" [OF n eq(1)] .
      moreover have "n mod 10 = m mod 10"
        using eq(2) by (intro digit_char_inj) simp_all
      ultimately show ?thesis
        by (metis div_mult_mod_eq)
    qed
  qed
qed

lemma str_int_nonempty: "str_int i \<noteq> []"
  by (simp add: str_int_def str_nat_nonempty)

lemma dash_not_in_tl_str_int: "CHR ''-'' \<notin> set (tl (str_int i))"
proof (cases "i < 0")
  case True
  then show ?thesis
    by (simp add: str_int_def dash_not_in_str_nat)
next
  case False
  then have "CHR ''-'' \<notin> set (str_int i)"
    by (simp add: str_int_def dash_not_in_str_nat)
  then show ?thesis
    using str_int_nonempty [of i] by (cases "str_int i") simp_all
qed

text \<open>A nonce taken from the clock alone is never one that a regeneration mints.\<close>

lemma default_nonce_fresh: "str_int t0 \<noteq> str_int t1 @ ''-'' @ str_nat a"
proof
  assume eq: "str_int t0 = str_int t1 @ ''-'' @ str_nat a"
  have "tl (str_int t1 @ ''-'' @ str_nat a) = tl (str_int t1) @ ''-'' @ str_nat a"
    using str_int_nonempty [of t1] by (cases "str_int t1") simp_all
  then have "CHR ''-'' \<in> set (tl (str_int t0))"
    using eq by simp
  then show False
    using dash_not_in_tl_str_int by blast
qed

lemma hd_str_int: "hd (str_int i) = CHR ''-'' \<longleftrightarrow> i < 0"
proof -
  have "hd (str_nat k) \<noteq> CHR ''-''" for k
    using dash_not_in_str_nat [of k] str_nat_nonempty [of k] by (cases "str_nat k") auto
  then show ?thesis
    by (simp add: str_int_def)
qed

lemma str_int_inj:
  assumes "str_int i = str_int j"
  shows "i = j"
proof -
  have sign: "i < 0 \<longleftrightarrow> j < 0"
    using assms hd_str_int [of i] hd_str_int [of j] by simp
  show ?thesis
  proof (cases "i < 0")
    case True
    then have "nat (- i) = nat (- j)"
      using assms sign by (simp add: str_int_def str_nat_inj)
    then show ?thesis
      using True sign by simp
  next
    case False
    then have "nat i = nat j"
      using assms sign by (simp add: str_int_def str_nat_inj)
    then show ?thesis
      using False sign by simp
  qed
qed

lemma split_at_last:
  assumes "xs @ c # ys = xs' @ c # ys'" and "c \<notin> set ys" and "c \<notin> set ys'"
  shows "xs = xs' \<and> ys = ys'"
proof -
  have "takeWhile (\<lambda>x. x \<noteq> c) (rev (xs @ c # ys)) = rev ys"
    using assms(2) by (auto simp add: takeWhile_append2 takeWhile_tail)
  moreover have "takeWhile (\<lambda>x. x \<noteq> c) (rev (xs' @ c # ys')) = rev ys'"
    using assms(3) by (auto simp add: takeWhile_append2 takeWhile_tail)
  ultimately have "ys = ys'"
    using assms(1) by (metis rev_rev_ident)
  then show ?thesis
    using assms(1) by simp
qed

text \<open>
  The nonce a regeneration mints determines the second and the attempt it was minted
  in: within one second, two attempts never get the same nonce.
\<close>

lemma regenerated_nonce_inj:
  assumes "str_int t @ ''-'' @ str_nat a = str_int t' @ ''-'' @ str_nat a'"
  shows "t = t' \<and> a = a'"
proof -
  have "str_int t = str_int t' \<and> str_nat a = str_nat a'"
    using assms split_at_last [of "str_int t" "CHR ''-''" "str_nat a" "str_int t'" "str_nat a'"]
      dash_not_in_str_nat by simp
  then show ?thesis
    using str_int_inj str_nat_inj by blast
qed

section \<open>The claims\<close>

subsection \<open>C1: the event the signer returns\<close>

text \<open>
  When \<^verbatim>\<open>event.sign\<close> raises \<^verbatim>\<open>AttributeError\<close> or \<^verbatim>\<open>TypeError\<close> and the second way of
  signing raises too, the event that is returned carries the fixed text of line 129 as
  its signature, whatever the key and the identifier.
\<close>

lemma sign_event_last_resort:
  assumes "event_sign (lib E) ev (private_key_hex (lib E) k) = Inl e"
    and "exn_class_of e = AttributeError \<or> exn_class_of e = TypeError"
    and "isl (from_hex (lib E) (private_key_hex (lib E) k))"
  shows "sign_event E ev k = Inr (manual_sign E ev)"
    and "ev_sig (manual_sign E ev) = ''placeholder_signature''"
  using assms by (auto simp add: sign_event_def manual_sign_def split: sum.splits)

text \<open>
  So, with a library without \<^verbatim>\<open>event.sign\<close> and without \<^verbatim>\<open>from_hex\<close>, every event the signer
  returns has that signature; its identifier is the digest the source computes.
\<close>

lemma signer_last_resort:
  assumes "NOSTR_LIB E = NostrPython"
    and "\<And>ev h. \<exists>e. event_sign (lib E) ev h = Inl e \<and> exn_class_of e = AttributeError"
    and "\<And>h. isl (from_hex (lib E) h)"
    and "signer E self c = Inr ev"
  shows "ev_sig ev = ''placeholder_signature''"
    and "ev_id ev = sha256_hexdigest E (json_dumps E (id_preimage ev))"
proof -
  have sign: "sign_event E ev0 k = Inr (manual_sign E ev0)" for ev0 k
  proof -
    obtain e where "event_sign (lib E) ev0 (private_key_hex (lib E) k) = Inl e"
      "exn_class_of e = AttributeError"
      using assms(2) by blast
    then show ?thesis
      using sign_event_last_resort(1) [of E ev0 k e] assms(3) by simp
  qed
  obtain ev0 where ev: "ev = manual_sign E ev0"
    using assms(1,4)
    by (auto simp add: signer_def create_auth_event_def create_auth_event_nostr_python_def
        Let_def case_prod_beta sign split: sum.splits)
  show "ev_sig ev = ''placeholder_signature''"
    by (simp add: ev manual_sign_def)
  show "ev_id ev = sha256_hexdigest E (json_dumps E (id_preimage ev))"
    by (simp add: ev manual_sign_def id_preimage_def)
qed

text \<open>With a library whose \<^verbatim>\<open>event.sign\<close> works, the event is self-consistent.\<close>

lemma demo_signer_consistent:
  assumes "nsec_key self = demo_key"
    and "signer (demo_env demo_lib script) self c = Inr ev"
  shows "self_consistent (demo_env demo_lib script) demo_verifies ev"
proof -
  obtain raw where raw: "decode_key demo_lib demo_key = Inr raw"
    using demo_decode by blast
  have "public_key_hex demo_lib raw = ''pub:'' @ raw" "private_key_hex demo_lib raw = raw"
    by (simp_all add: demo_lib_def)
  then show ?thesis
    using raw assms
    by (auto simp add: signer_def create_auth_event_def create_auth_event_nostr_python_def
        demo_env_sel demo_build demo_sign Let_def read_clock_def self_consistent_def
        demo_verifies_def id_preimage_def demo_event_def)
qed

lemma nosign_build:
  "build_event nosign_lib self pub t = Inr (demo_event 27235 [] (auth_tags self) pub t)"
  by (simp add: build_event_def nosign_lib_def demo_lib_def)

lemma nosign_sign: "sign_event (demo_env nosign_lib script) ev k = Inr (manual_sign (demo_env nosign_lib script) ev)"
  by (simp add: sign_event_def demo_env_sel nosign_lib_def demo_lib_def)

lemma nosign_decode: "\<exists>raw. decode_key nosign_lib demo_key = Inr raw"
  using demo_decode decode_key_cong [of nosign_lib demo_lib] by (simp add: nosign_lib_def)

text \<open>
  Claim C1 fails on the code. With a library whose events have no method \<^verbatim>\<open>sign\<close> and
  whose keys have no \<^verbatim>\<open>from_hex\<close>, the signer returns, for a valid key, an event whose
  signature is the text \<^verbatim>\<open>placeholder_signature\<close>; it does not verify against the
  public key and the identifier, and \<^verbatim>\<open>upload\<close> sends it.
\<close>

theorem placeholder_signature_returned:
  "(\<exists>ev. signer (demo_env nosign_lib [Inr http_ok]) (demo_uploader ''n1'' 3) 0 = Inr ev \<and>
         ev_sig ev = ''placeholder_signature'' \<and>
         \<not> self_consistent (demo_env nosign_lib [Inr http_ok]) demo_verifies ev) \<and>
   map (\<lambda>r. ev_sig (req_auth r))
     (posts (trace (snd (snd (upload (demo_env nosign_lib [Inr http_ok])
        (demo_uploader ''n1'' 3) world0))))) = [''placeholder_signature'']"
proof -
  obtain raw where raw: "decode_key nosign_lib demo_key = Inr raw"
    using nosign_decode by blast
  have "\<exists>ev. signer (demo_env nosign_lib [Inr http_ok]) (demo_uploader ''n1'' 3) 0 = Inr ev \<and>
         ev_sig ev = ''placeholder_signature'' \<and>
         \<not> self_consistent (demo_env nosign_lib [Inr http_ok]) demo_verifies ev"
    using raw
    by (simp add: signer_def create_auth_event_def create_auth_event_nostr_python_def
        demo_env_sel demo_uploader_sel nosign_build nosign_sign Let_def read_clock_def
        self_consistent_def demo_verifies_def demo_signature_def manual_sign_def)
  moreover have "map (\<lambda>r. ev_sig (req_auth r))
     (posts (trace (snd (snd (upload (demo_env nosign_lib [Inr http_ok])
        (demo_uploader ''n1'' 3) world0))))) = [''placeholder_signature'']"
    using raw
    by (simp add: run_defs demo_env_sel demo_uploader_sel nosign_build nosign_sign scripted_def
          http_ok_def upt_rec manual_sign_def)
  ultimately show ?thesis
    by blast
qed

subsection \<open>C2: a signer that fails\<close>

text \<open>When the first construction of the token fails, \<^verbatim>\<open>upload\<close> stops at once.\<close>

lemma upload_signer_failure:
  assumes "fs E (file_path self) = Some content"
    and "signer E self (clock_reads w) = Inl e"
  shows "\<exists>w'. upload E self w = (Inr False, self, w') \<and>
           posts (trace w') = posts (trace w) \<and>
           sleeps (trace w') = sleeps (trace w) \<and>
           tokens_made (trace w') = tokens_made (trace w) @ [unique_id self] \<and>
           outputs (trace w') = outputs (trace w) @
             [(''success'', PStr ''false''), (''error'', PStr (str_of e))]"
proof -
  define w2 where "w2 = snd (open_files self content (snd (hash_file E content w)))"
  have w2: "trace w2 = trace w" "clock_reads w2 = clock_reads w"
    by (simp_all add: w2_def trace_open_files clock_open_files trace_hash_file clock_hash_file)
  have r: "fst (create_auth_event E self w2) = Inl e"
    using assms(2) w2 by (simp add: create_auth_event_result)
  obtain ts where ts: "trace (snd (create_auth_event E self w2)) = trace w2 @ ts"
    "posts ts = []" "sleeps ts = []" "outputs ts = []" "tokens_made ts = [unique_id self]"
    using create_auth_event_trace by blast
  show ?thesis
    using r ts w2 assms(1)
    by (cases "create_auth_event E self w2")
       (simp add: upload_unfold w2_def [symmetric] trace_set_output proj_append)
qed

text \<open>
  When the regeneration of the token fails, the pass of the loop neither returns nor
  sets an output: the exception is caught with those of the transport, the token of
  before stays in the header, and the loop goes on.
\<close>

lemma step_replay_signer_failure:
  assumes "\<And>r. transport E a r = Inr resp"
    and "replay_failure resp"
    and "nonce = str_int (time_now E (clock_reads w)) @ ''-'' @ str_nat a"
    and "signer E (self\<lparr>unique_id := nonce\<rparr>) (Suc (clock_reads w)) = Inl e"
  shows "\<exists>w'. attempt_step E files fh fsz a (self, auth, w) =
                (None, self\<lparr>unique_id := nonce\<rparr>, auth, w') \<and>
              outputs (trace w') = outputs (trace w) \<and>
              tokens_made (trace w') = tokens_made (trace w) @ [nonce]"
proof -
  define url where "url = host self @ ''/upload''"
  define w1 where "w1 = snd (requests_post E a url auth files w)"
  define self' where "self' = self\<lparr>unique_id := nonce\<rparr>"
  define w2 where "w2 = w1\<lparr>clock_reads := Suc (clock_reads w1)\<rparr>"
  have w1: "clock_reads w1 = clock_reads w"
    "trace w1 = trace w @ [Post (build_request url auth files (fst (read_rest (part_handle files) w)))]"
    by (simp_all add: w1_def requests_post_clock requests_post_trace)
  have post: "fst (requests_post E a (host self @ ''/upload'') auth files w) = Inr resp"
    by (simp add: requests_post_result assms(1))
  have failed: "fst (create_auth_event E self' w2) = Inl e"
    using assms(4) by (simp add: create_auth_event_result w2_def w1 self'_def)
  obtain ts where ts: "trace (snd (create_auth_event E self' w2)) = trace w2 @ ts"
    "outputs ts = []" "tokens_made ts = [unique_id self']"
    using create_auth_event_trace by blast
  have nonce: "str_int (time_now E (clock_reads w1)) @ ''-'' @ str_nat a = nonce"
    by (simp add: assms(3) w1(1))
  have step: "attempt_step E files fh fsz a (self, auth, w) =
      (None, self', auth, backoff self' a (snd (create_auth_event E self' w2)))"
    unfolding step_replay [OF post assms(2)] Let_def url_def [symmetric] w1_def [symmetric]
      nonce self'_def [symmetric] w2_def [symmetric]
    using failed by simp
  show ?thesis
    using step ts
    by (intro exI [of _ "backoff self' a (snd (create_auth_event E self' w2))"])
       (simp add: self'_def trace_backoff proj_append w2_def w1)
qed

lemma flaky_build:
  "build_event flaky_lib self pub t = Inr (demo_event 27235 [] (auth_tags self) pub t)"
  by (simp add: build_event_def flaky_lib_def demo_lib_def)

lemma flaky_sign:
  "sign_event (demo_env flaky_lib script) ev k =
     (if list_ex (\<lambda>t. list_ex (\<lambda>s. CHR ''-'' \<in> set s) t) (ev_tags ev)
      then Inl (Exn OtherError ''signing failed'')
      else Inr (ev\<lparr>ev_id := demo_sha256 (demo_json (id_preimage ev)),
                  ev_sig := demo_signature k (demo_sha256 (demo_json (id_preimage ev)))\<rparr>))"
  by (simp add: sign_event_def demo_env_sel flaky_lib_def demo_lib_def)

lemma flaky_decode: "\<exists>raw. decode_key flaky_lib demo_key = Inr raw"
  using demo_decode decode_key_cong [of flaky_lib demo_lib] by (simp add: flaky_lib_def)

text \<open>
  Claim C2 fails on the code where the token is regenerated. The signer works for the
  first nonce and fails for every regenerated one; every response says the event was
  already used. The failure of the regeneration is caught by the handler of line 239:
  the run goes on, sends the first token again on attempts 1 and 2, calls the signer
  again after each refusal, and ends with \<^verbatim>\<open>Failed after 3 attempts\<close>; the error of the
  signer is in no output.
\<close>

theorem regeneration_failure_is_retried:
  "signer (demo_env flaky_lib [Inr http_replayed, Inr http_replayed, Inr http_replayed])
     ((demo_uploader ''n1'' 3)\<lparr>unique_id := ''1700000001-0''\<rparr>) 2 =
     Inl (Exn OtherError ''signing failed'') \<and>
   fst (upload (demo_env flaky_lib [Inr http_replayed, Inr http_replayed, Inr http_replayed])
     (demo_uploader ''n1'' 3) world0) = Inr False \<and>
   tokens_made (trace (snd (snd (upload
     (demo_env flaky_lib [Inr http_replayed, Inr http_replayed, Inr http_replayed])
     (demo_uploader ''n1'' 3) world0)))) =
     [''n1'', ''1700000001-0'', ''1700000003-1'', ''1700000005-2''] \<and>
   map (\<lambda>r. last (ev_tags (req_auth r))) (posts (trace (snd (snd (upload
     (demo_env flaky_lib [Inr http_replayed, Inr http_replayed, Inr http_replayed])
     (demo_uploader ''n1'' 3) world0))))) =
     [[''payload'', ''n1''], [''payload'', ''n1''], [''payload'', ''n1'']] \<and>
   outputs (trace (snd (snd (upload
     (demo_env flaky_lib [Inr http_replayed, Inr http_replayed, Inr http_replayed])
     (demo_uploader ''n1'' 3) world0)))) =
     [(''success'', PStr ''false''), (''error'', PStr ''Failed after 3 attempts'')]"
proof -
  define E where "E = demo_env flaky_lib [Inr http_replayed, Inr http_replayed, Inr http_replayed]"
  obtain raw where raw: "decode_key flaky_lib demo_key = Inr raw"
    using flaky_decode by blast
  have nums: "str_int 1700000001 = ''1700000001''" "str_int 1700000003 = ''1700000003''"
    "str_int 1700000005 = ''1700000005''" "str_int 3 = ''3''"
    "str_nat 0 = ''0''" "str_nat (Suc 0) = ''1''" "str_nat (Suc (Suc 0)) = ''2''"
    by (simp_all add: str_int_def str_nat.simps digit_char_def)
  have signer: "signer E ((demo_uploader ''n1'' 3)\<lparr>unique_id := ''1700000001-0''\<rparr>) 2 =
     Inl (Exn OtherError ''signing failed'')"
    using raw
    by (simp add: E_def signer_def create_auth_event_def create_auth_event_nostr_python_def
        demo_env_sel demo_uploader_sel flaky_build flaky_sign Let_def read_clock_def
        demo_event_def auth_tags_def)
  have run: "fst (upload E (demo_uploader ''n1'' 3) world0) = Inr False"
    using raw
    by (simp add: E_def run_defs demo_env_sel demo_uploader_sel flaky_build flaky_sign
          scripted_def http_replayed_def upt_rec demo_event_def auth_tags_def nums)
  have toks: "tokens_made (trace (snd (snd (upload E (demo_uploader ''n1'' 3) world0)))) =
     [''n1'', ''1700000001-0'', ''1700000003-1'', ''1700000005-2'']"
    using raw
    by (simp add: E_def run_defs demo_env_sel demo_uploader_sel flaky_build flaky_sign
          scripted_def http_replayed_def upt_rec demo_event_def auth_tags_def nums)
  have sent: "map (\<lambda>r. last (ev_tags (req_auth r)))
       (posts (trace (snd (snd (upload E (demo_uploader ''n1'' 3) world0))))) =
     [[''payload'', ''n1''], [''payload'', ''n1''], [''payload'', ''n1'']]"
    using raw
    by (simp add: E_def run_defs demo_env_sel demo_uploader_sel flaky_build flaky_sign
          scripted_def http_replayed_def upt_rec demo_event_def auth_tags_def nums)
  have outs: "outputs (trace (snd (snd (upload E (demo_uploader ''n1'' 3) world0)))) =
     [(''success'', PStr ''false''), (''error'', PStr ''Failed after 3 attempts'')]"
    using raw
    by (simp add: E_def run_defs demo_env_sel demo_uploader_sel flaky_build flaky_sign
          scripted_def http_replayed_def upt_rec demo_event_def auth_tags_def nums)
  show ?thesis
    unfolding E_def [symmetric] using signer run toks sent outs by (intro conjI)
qed

subsection \<open>C3: a token the server has already seen\<close>

text \<open>
  The run in which attempt \<open>a\<close> is refused because the event was already used and the
  next attempt succeeds, the attempts before \<open>a\<close> having got generic failures.
\<close>

lemma upload_replay_then_ok:
  assumes "int (Suc a) < retries self"
    and "fs E (file_path self) = Some content"
    and "signer E self (clock_reads w) = Inr auth0"
    and "\<And>k r. k < a \<Longrightarrow> \<exists>resp. transport E k r = Inr resp \<and> generic_failure resp"
    and "\<And>r. transport E a r = Inr resp0"
    and "replay_failure resp0"
    and "nonce = str_int (time_now E (Suc (clock_reads w))) @ ''-'' @ str_nat a"
    and "signer E (self\<lparr>unique_id := nonce\<rparr>) (Suc (Suc (clock_reads w))) = Inr auth1"
    and "\<And>r. transport E (Suc a) r = Inr resp1"
    and "status_code resp1 = 200"
    and "resp_json resp1 = Inr (PDict result)"
  shows "\<exists>w'. upload E self w = (Inr True, self\<lparr>unique_id := nonce\<rparr>, w') \<and>
           tokens_made (trace w') = tokens_made (trace w) @ [unique_id self, nonce] \<and>
           map req_auth (posts (trace w')) =
             map req_auth (posts (trace w)) @ replicate (Suc a) auth0 @ [auth1] \<and>
           sleeps (trace w') = sleeps (trace w) @ map (\<lambda>k. 2 ^ k) [0..<Suc a] \<and>
           outputs (trace w') = outputs (trace w) @
             [(''url'', dict_get result ''url'' (PStr [])),
              (''hash'', dict_get result ''hash'' (PStr (sha256_hexdigest E content))),
              (''size'', PStr (str_nat (length content))),
              (''success'', PStr ''true'')] \<and>
           timeline (trace w') = timeline (trace w) @
             Minted (unique_id self) # concat (map (\<lambda>k. [Sent auth0, Slept (2 ^ k)]) [0..<a]) @
             [Sent auth0, Minted nonce, Slept (2 ^ a), Sent auth1,
              Reported ''url'' (dict_get result ''url'' (PStr [])),
              Reported ''hash'' (dict_get result ''hash'' (PStr (sha256_hexdigest E content))),
              Reported ''size'' (PStr (str_nat (length content))),
              Reported ''success'' (PStr ''true'')]"
proof -
  define w2 where "w2 = snd (open_files self content (snd (hash_file E content w)))"
  define files where "files = fst (open_files self content (snd (hash_file E content w)))"
  define fh where "fh = sha256_hexdigest E content"
  define url where "url = host self @ ''/upload''"
  have w2: "trace w2 = trace w" "clock_reads w2 = clock_reads w"
    by (simp_all add: w2_def trace_open_files clock_open_files trace_hash_file clock_hash_file)
  obtain w3 ts where run: "create_auth_event E self w2 = (Inr auth0, w3)"
    "trace w3 = trace w2 @ ts" "posts ts = []" "sleeps ts = []" "outputs ts = []"
    "tokens_made ts = [unique_id self]" "clock_reads w3 = Suc (clock_reads w2)"
    using signer_run [of E self w2 auth0] assms(3) w2 by auto
  have "Suc a < nat (retries self)"
    using assms(1) by simp
  then have "[0..<nat (retries self)] = [0..<a] @ [a..<nat (retries self)]"
    "[a..<nat (retries self)] = a # Suc a # [Suc (Suc a)..<nat (retries self)]"
    using upt_add_eq_append [of 0 a "nat (retries self) - a"]
    by (simp_all add: upt_conv_Cons)
  then have attempts:
    "[0..<nat (retries self)] = [0..<a] @ a # Suc a # [Suc (Suc a)..<nat (retries self)]"
    by simp
  have early: "int k < retries self - 1" if "k < Suc a" for k
    using that assms(1) by simp
  have generic:
    "\<And>k r. k \<in> set [0..<a] \<Longrightarrow> \<exists>resp. transport E k r = Inr resp \<and> generic_failure resp"
    using assms(4) by simp
  then obtain w4 where w4:
    "upload_loop E files fh (length content) [0..<a] (self, auth0, w3) = (None, self, auth0, w4)"
    "sleeps (trace w4) = sleeps (trace w3) @
       concat (map (\<lambda>k. if int k < retries self - 1 then [2 ^ k] else []) [0..<a])"
    "outputs (trace w4) = outputs (trace w3)"
    "tokens_made (trace w4) = tokens_made (trace w3)"
    "map req_auth (posts (trace w4)) =
       map req_auth (posts (trace w3)) @ replicate (length [0..<a]) auth0"
    "clock_reads w4 = clock_reads w3"
    using loop_generic [of "[0..<a]" E files fh "length content" self auth0 w3] by blast
  have "int a < retries self"
    using assms(1) by simp
  then have sleeps4: "sleeps (trace w4) = sleeps (trace w3) @ map (\<lambda>k. 2 ^ k) [0..<a]"
    using w4(2) by (simp add: backoff_before)
  define w5 where "w5 = snd (requests_post E a url auth0 files w4)"
  have w5: "trace w5 = trace w4 @
      [Post (build_request url auth0 files (fst (read_rest (part_handle files) w4)))]"
    "clock_reads w5 = clock_reads w4"
    by (simp_all add: w5_def requests_post_trace requests_post_clock)
  define self' where "self' = self\<lparr>unique_id := nonce\<rparr>"
  have nonce: "str_int (time_now E (clock_reads w5)) @ ''-'' @ str_nat a = nonce"
    by (simp add: assms(7) w5 w4 run w2)
  define w6 where "w6 = w5\<lparr>clock_reads := Suc (clock_reads w5)\<rparr>"
  have w6: "trace w6 = trace w5" "clock_reads w6 = Suc (Suc (clock_reads w))"
    by (simp_all add: w6_def w5 w4 run w2)
  obtain w7 ts' where run': "create_auth_event E self' w6 = (Inr auth1, w7)"
    "trace w7 = trace w6 @ ts'" "posts ts' = []" "sleeps ts' = []" "outputs ts' = []"
    "tokens_made ts' = [unique_id self']"
    using signer_run [of E self' w6 auth1] assms(8) w6 by (auto simp: self'_def)
  define w8 where "w8 = backoff self' a w7"
  have w8: "trace w8 = trace w7 @ [Sleep (2 ^ a)]"
    using early [of a] by (simp add: w8_def trace_backoff self'_def)
  have post0: "fst (requests_post E a (host self @ ''/upload'') auth0 files w4) = Inr resp0"
    by (simp add: requests_post_result assms(5))
  have step0: "attempt_step E files fh (length content) a (self, auth0, w4) =
      (None, self', auth1, w8)"
    unfolding step_replay [OF post0 assms(6)] Let_def url_def [symmetric] w5_def [symmetric]
      nonce self'_def [symmetric] w6_def [symmetric] w8_def
    using run'(1) by simp
  have url': "host self' @ ''/upload'' = url"
    by (simp add: self'_def url_def)
  have post1: "fst (requests_post E (Suc a) url auth1 files w8) = Inr resp1"
    by (simp add: requests_post_result assms(9))
  define w9 where "w9 = snd (requests_post E (Suc a) url auth1 files w8)"
  define w10 where "w10 =
     set_output ''success'' (PStr ''true'')
      (set_output ''size'' (PStr (str_nat (length content)))
        (set_output ''hash'' (dict_get result ''hash'' (PStr fh))
          (set_output ''url'' (dict_get result ''url'' (PStr [])) w9)))"
  have step1: "attempt_step E files fh (length content) (Suc a) (self', auth1, w8) =
      (Some True, self', auth1, w10)"
    using step_ok [of E "Suc a" self' auth1 files w8 resp1 result fh "length content"]
      post1 assms(10,11)
    by (simp add: url' w10_def w9_def)
  have loop: "upload_loop E files fh (length content) [0..<nat (retries self)] (self, auth0, w3) =
      (Some True, self', auth1, w10)"
    by (simp add: attempts upload_loop_append w4(1) step0 step1)
  have up: "upload E self w = (Inr True, self', w10)"
    using run(1) assms(2) loop
    by (simp add: upload_unfold w2_def [symmetric] files_def [symmetric] hash_file_digest
          fh_def [symmetric])
  have w9: "trace w9 = trace w8 @
      [Post (build_request url auth1 files (fst (read_rest (part_handle files) w8)))]"
    by (simp add: w9_def requests_post_trace)
  have tr: "trace w10 = trace w4 @
      [Post (build_request url auth0 files (fst (read_rest (part_handle files) w4)))] @ ts' @
      [Sleep (2 ^ a),
       Post (build_request url auth1 files (fst (read_rest (part_handle files) w8))),
       SetOutput ''url'' (dict_get result ''url'' (PStr [])),
       SetOutput ''hash'' (dict_get result ''hash'' (PStr fh)),
       SetOutput ''size'' (PStr (str_nat (length content))),
       SetOutput ''success'' (PStr ''true'')]"
    by (simp add: w10_def trace_set_output w9 w8 run'(2) w6 w5)
  have before: "tokens_made (trace w4) = tokens_made (trace w) @ [unique_id self]"
    "map req_auth (posts (trace w4)) = map req_auth (posts (trace w)) @ replicate a auth0"
    "sleeps (trace w4) = sleeps (trace w) @ map (\<lambda>k. 2 ^ k) [0..<a]"
    "outputs (trace w4) = outputs (trace w)"
    using w4(3-5) sleeps4 run(2-6) w2(1) by (simp_all add: proj_append)
  have "timeline (trace w3) = timeline (trace w) @ [Minted (unique_id self)]"
    using create_auth_event_timeline [of E self w2] run(1) w2(1) by simp
  moreover have "timeline (trace w4) = timeline (trace w3) @
      concat (map (\<lambda>k. [Sent auth0, Slept (2 ^ k)]) [0..<a])"
    using loop_generic_timeline [OF generic w4(1)] timeline_before [OF \<open>int a < retries self\<close>]
    by simp
  ultimately have order4: "timeline (trace w4) = timeline (trace w) @
      Minted (unique_id self) # concat (map (\<lambda>k. [Sent auth0, Slept (2 ^ k)]) [0..<a])"
    by simp
  have "timeline (trace w6) @ timeline ts' = timeline (trace w6) @ [Minted nonce]"
    using create_auth_event_timeline [of E self' w6] run'(1,2)
    by (simp add: timeline_append self'_def)
  then have minted: "timeline ts' = [Minted nonce]"
    by simp
  have order: "timeline (trace w10) = timeline (trace w) @
      Minted (unique_id self) # concat (map (\<lambda>k. [Sent auth0, Slept (2 ^ k)]) [0..<a]) @
      [Sent auth0, Minted nonce, Slept (2 ^ a), Sent auth1,
       Reported ''url'' (dict_get result ''url'' (PStr [])),
       Reported ''hash'' (dict_get result ''hash'' (PStr (sha256_hexdigest E content))),
       Reported ''size'' (PStr (str_nat (length content))),
       Reported ''success'' (PStr ''true'')]"
    by (simp add: tr timeline_append order4 minted build_request_def fh_def)
  have "tokens_made (trace w10) = tokens_made (trace w) @ [unique_id self, nonce] \<and>
        map req_auth (posts (trace w10)) =
          map req_auth (posts (trace w)) @ replicate (Suc a) auth0 @ [auth1] \<and>
        sleeps (trace w10) = sleeps (trace w) @ map (\<lambda>k. 2 ^ k) [0..<Suc a] \<and>
        outputs (trace w10) = outputs (trace w) @
          [(''url'', dict_get result ''url'' (PStr [])),
           (''hash'', dict_get result ''hash'' (PStr (sha256_hexdigest E content))),
           (''size'', PStr (str_nat (length content))),
           (''success'', PStr ''true'')]"
    using run'(3-6) before
    by (simp add: tr posts_append sleeps_append outputs_append tokens_made_append self'_def
          build_request_def fh_def replicate_append_same)
  then show ?thesis
    using up order unfolding self'_def by (intro exI [of _ w10]) simp
qed

text \<open>
  Claim C3, as amended. Hypotheses: the file exists and the first construction of the
  token succeeds; every attempt before attempt \<open>a\<close> got a generic failure (a status
  other than 200, a body that does not say the event was already used), which is no
  hypothesis when \<open>a = 0\<close>; attempt \<open>a\<close> got a response other than 200 whose body contains
  \<^verbatim>\<open>Auth event already used\<close>; attempt \<open>a + 1\<close> is within the budget and got a response
  with status 200 and a JSON object; the construction of the token for the new nonce
  succeeds. Then \<^verbatim>\<open>upload\<close> returns \<^verbatim>\<open>True\<close> and what it does is, in this order: it
  constructs the first token; it sends every attempt up to \<open>a\<close> with the first token,
  sleeping \<open>2 ^ k\<close> after attempt \<open>k < a\<close>; after the refusal of attempt \<open>a\<close> it
  constructs one new token, for the nonce \<^verbatim>\<open>str(int(time.time())) + "-" + str(a)\<close> (the
  clock as read at the regeneration, the zero-based attempt index after the dash); it
  sleeps \<open>2 ^ a\<close>; it sends attempt \<open>a + 1\<close> with the new token; it sets the outputs of
  success. So two tokens are constructed in all, and \<open>a + 2\<close> requests are sent: for
  \<open>a = 0\<close> exactly two, the first with the first token and the second with the new one.
  The nonce determines the time and the attempt index it was made of, so regenerations
  at another attempt index, or at another time, get another nonce. The new nonce differs
  from the first one whenever the first is the decimal text of an integer, as it is
  when it was taken from the clock (no \<^verbatim>\<open>unique_id\<close> given); a \<^verbatim>\<open>unique_id\<close> given by the
  caller may be the very text the regeneration mints.
\<close>

theorem upload_regenerates_token:
  assumes "int (Suc a) < retries self"
    and "fs E (file_path self) = Some content"
    and "signer E self (clock_reads w) = Inr auth0"
    and "\<And>k r. k < a \<Longrightarrow> \<exists>resp. transport E k r = Inr resp \<and> generic_failure resp"
    and "\<And>r. transport E a r = Inr resp0"
    and "replay_failure resp0"
    and "nonce = str_int (time_now E (Suc (clock_reads w))) @ ''-'' @ str_nat a"
    and "signer E (self\<lparr>unique_id := nonce\<rparr>) (Suc (Suc (clock_reads w))) = Inr auth1"
    and "\<And>r. transport E (Suc a) r = Inr resp1"
    and "status_code resp1 = 200"
    and "resp_json resp1 = Inr (PDict result)"
  shows "(\<exists>w'. upload E self w = (Inr True, self\<lparr>unique_id := nonce\<rparr>, w') \<and>
           tokens_made (trace w') = tokens_made (trace w) @ [unique_id self, nonce] \<and>
           map req_auth (posts (trace w')) =
             map req_auth (posts (trace w)) @ replicate (Suc a) auth0 @ [auth1] \<and>
           sleeps (trace w') = sleeps (trace w) @ map (\<lambda>k. 2 ^ k) [0..<Suc a] \<and>
           outputs (trace w') = outputs (trace w) @
             [(''url'', dict_get result ''url'' (PStr [])),
              (''hash'', dict_get result ''hash'' (PStr (sha256_hexdigest E content))),
              (''size'', PStr (str_nat (length content))),
              (''success'', PStr ''true'')] \<and>
           timeline (trace w') = timeline (trace w) @
             Minted (unique_id self) # concat (map (\<lambda>k. [Sent auth0, Slept (2 ^ k)]) [0..<a]) @
             [Sent auth0, Minted nonce, Slept (2 ^ a), Sent auth1,
              Reported ''url'' (dict_get result ''url'' (PStr [])),
              Reported ''hash'' (dict_get result ''hash'' (PStr (sha256_hexdigest E content))),
              Reported ''size'' (PStr (str_nat (length content))),
              Reported ''success'' (PStr ''true'')]) \<and>
         (\<forall>t b. str_int t @ ''-'' @ str_nat b = nonce \<longrightarrow>
                  t = time_now E (Suc (clock_reads w)) \<and> b = a) \<and>
         (\<forall>t. unique_id self = str_int t \<longrightarrow> nonce \<noteq> unique_id self)"
proof -
  have fresh: "nonce \<noteq> str_int t" for t
    using default_nonce_fresh [of t "time_now E (Suc (clock_reads w))" a] assms(7) by simp
  have "t = time_now E (Suc (clock_reads w)) \<and> b = a"
    if "str_int t @ ''-'' @ str_nat b = nonce" for t b
    using that regenerated_nonce_inj [of t b "time_now E (Suc (clock_reads w))" a] assms(7)
    by simp
  then have inj: "\<forall>t b. str_int t @ ''-'' @ str_nat b = nonce \<longrightarrow>
      t = time_now E (Suc (clock_reads w)) \<and> b = a"
    by blast
  have "\<forall>t. unique_id self = str_int t \<longrightarrow> nonce \<noteq> unique_id self"
    using fresh by auto
  then show ?thesis
    using upload_replay_then_ok [OF assms] inj by (intro conjI)
qed

theorem upload_regenerates_token_witness:
  "(\<exists>w' auth0 auth1.
      upload (demo_env demo_lib [Inr http_replayed, Inr http_ok])
        (demo_uploader ''1700000000'' 3) world0 =
        (Inr True, demo_uploader ''1700000001-0'' 3, w') \<and>
      tokens_made (trace w') = [''1700000000'', ''1700000001-0''] \<and>
      length (posts (trace w')) = 2 \<and>
      sleeps (trace w') = [1] \<and>
      timeline (trace w') =
        [Minted ''1700000000'', Sent auth0, Minted ''1700000001-0'', Slept 1, Sent auth1,
         Reported ''url'' (PStr ''https://cdn.example/blob''),
         Reported ''hash''
           (PStr ''2cf24dba5fb0a30e26e83b2ac5b9e29e1b161e5c1fa7425e73043362938b9824''),
         Reported ''size'' (PStr ''5''),
         Reported ''success'' (PStr ''true'')]) \<and>
   ''1700000001-0'' \<noteq> ''1700000000''"
proof -
  define E where "E = demo_env demo_lib [Inr http_replayed, Inr http_ok]"
  define self where "self = demo_uploader ''1700000000'' 3"
  obtain auth0 where auth0: "signer E self (clock_reads world0) = Inr auth0"
    unfolding E_def self_def using demo_signer_ok [of "demo_uploader ''1700000000'' 3"]
    by (auto simp: demo_uploader_sel)
  have nonce: "''1700000001-0'' = str_int (time_now E (Suc (clock_reads world0))) @ ''-'' @ str_nat 0"
    by (simp add: E_def demo_env_sel world0_def str_int_def str_nat.simps digit_char_def)
  obtain auth1 where auth1:
    "signer E (self\<lparr>unique_id := ''1700000001-0''\<rparr>) (Suc (Suc (clock_reads world0))) = Inr auth1"
    unfolding E_def self_def
    using demo_signer_ok [of "(demo_uploader ''1700000000'' 3)\<lparr>unique_id := ''1700000001-0''\<rparr>"]
    by (auto simp: demo_uploader_sel)
  have none_before: "\<exists>resp. transport E k r = Inr resp \<and> generic_failure resp" if "k < 0" for k r
    using that by simp
  have script: "transport E 0 r = Inr http_replayed" "transport E (Suc 0) r = Inr http_ok" for r
    by (simp_all add: E_def demo_env_sel scripted_def)
  have resp: "replay_failure http_replayed" "status_code http_ok = 200"
    "resp_json http_ok = Inr (PDict [(''url'', PStr ''https://cdn.example/blob'')])"
    by (simp_all add: replay_failure_def http_replayed_def http_ok_def)
  have first: "unique_id self = str_int 1700000000"
    by (simp add: self_def demo_uploader_sel str_int_def str_nat.simps digit_char_def)
  have budget: "int (Suc 0) < retries self" "fs E (file_path self) = Some ''hello''"
    by (simp_all add: self_def E_def demo_uploader_sel demo_env_sel)
  have self': "self\<lparr>unique_id := ''1700000001-0''\<rparr> = demo_uploader ''1700000001-0'' 3"
    by (simp add: self_def demo_uploader_def)
  have five: "str_nat (length ''hello'') = ''5''"
    by (simp add: str_nat_digit digit_char_def)
  obtain w' where w': "upload E self world0 = (Inr True, self\<lparr>unique_id := ''1700000001-0''\<rparr>, w')"
    "tokens_made (trace w') = tokens_made (trace world0) @ [unique_id self, ''1700000001-0'']"
    "map req_auth (posts (trace w')) =
       map req_auth (posts (trace world0)) @ replicate (Suc 0) auth0 @ [auth1]"
    "sleeps (trace w') = sleeps (trace world0) @ map (\<lambda>k. 2 ^ k) [0..<Suc 0]"
    "timeline (trace w') = timeline (trace world0) @
       Minted (unique_id self) # concat (map (\<lambda>k. [Sent auth0, Slept (2 ^ k)]) [0..<0]) @
       [Sent auth0, Minted ''1700000001-0'', Slept (2 ^ 0), Sent auth1,
        Reported ''url'' (dict_get [(''url'', PStr ''https://cdn.example/blob'')] ''url'' (PStr [])),
        Reported ''hash'' (dict_get [(''url'', PStr ''https://cdn.example/blob'')] ''hash''
                            (PStr (sha256_hexdigest E ''hello''))),
        Reported ''size'' (PStr (str_nat (length ''hello''))),
        Reported ''success'' (PStr ''true'')]"
    and fresh: "\<forall>t. unique_id self = str_int t \<longrightarrow> ''1700000001-0'' \<noteq> unique_id self"
    using upload_regenerates_token [OF budget auth0 none_before script(1) resp(1) nonce auth1
        script(2) resp(2,3)]
    by blast
  have "length (map req_auth (posts (trace w'))) = 2"
    using w'(3) by (simp add: world0_def)
  then have two: "length (posts (trace w')) = 2"
    by simp
  have up: "upload (demo_env demo_lib [Inr http_replayed, Inr http_ok])
      (demo_uploader ''1700000000'' 3) world0 = (Inr True, demo_uploader ''1700000001-0'' 3, w')"
    using w'(1) self' unfolding E_def self_def by simp
  have tokens: "tokens_made (trace w') = [''1700000000'', ''1700000001-0'']"
    using w'(2) by (simp add: world0_def self_def demo_uploader_sel)
  have waits: "sleeps (trace w') = [1]"
    using w'(4) by (simp add: world0_def)
  have order: "timeline (trace w') =
      [Minted ''1700000000'', Sent auth0, Minted ''1700000001-0'', Slept 1, Sent auth1,
       Reported ''url'' (PStr ''https://cdn.example/blob''),
       Reported ''hash''
         (PStr ''2cf24dba5fb0a30e26e83b2ac5b9e29e1b161e5c1fa7425e73043362938b9824''),
       Reported ''size'' (PStr ''5''),
       Reported ''success'' (PStr ''true'')]"
    using w'(5) five
    by (simp add: world0_def self_def demo_uploader_sel dict_get_def E_def demo_env_sel
          demo_sha256_def)
  have run: "\<exists>w' auth0 auth1.
      upload (demo_env demo_lib [Inr http_replayed, Inr http_ok])
        (demo_uploader ''1700000000'' 3) world0 =
        (Inr True, demo_uploader ''1700000001-0'' 3, w') \<and>
      tokens_made (trace w') = [''1700000000'', ''1700000001-0''] \<and>
      length (posts (trace w')) = 2 \<and>
      sleeps (trace w') = [1] \<and>
      timeline (trace w') =
        [Minted ''1700000000'', Sent auth0, Minted ''1700000001-0'', Slept 1, Sent auth1,
         Reported ''url'' (PStr ''https://cdn.example/blob''),
         Reported ''hash''
           (PStr ''2cf24dba5fb0a30e26e83b2ac5b9e29e1b161e5c1fa7425e73043362938b9824''),
         Reported ''size'' (PStr ''5''),
         Reported ''success'' (PStr ''true'')]"
    using up tokens two waits order by blast
  have "''1700000001-0'' \<noteq> unique_id self"
    using fresh first by blast
  then have "''1700000001-0'' \<noteq> ''1700000000''"
    by (simp add: self_def demo_uploader_sel)
  then show ?thesis
    using run by (intro conjI)
qed

text \<open>
  The claim as it stands fails when the caller's \<^verbatim>\<open>unique_id\<close> is the very text the
  regeneration mints: both tokens then carry the same nonce.
\<close>

theorem regenerated_nonce_collides:
  "fst (upload (demo_env demo_lib [Inr http_replayed, Inr http_ok])
          (demo_uploader ''1700000001-0'' 3) world0) = Inr True \<and>
   tokens_made (trace (snd (snd (upload (demo_env demo_lib [Inr http_replayed, Inr http_ok])
          (demo_uploader ''1700000001-0'' 3) world0)))) = [''1700000001-0'', ''1700000001-0'']"
proof -
  define E where "E = demo_env demo_lib [Inr http_replayed, Inr http_ok]"
  define self where "self = demo_uploader ''1700000001-0'' 3"
  obtain auth0 where auth0: "signer E self (clock_reads world0) = Inr auth0"
    unfolding E_def self_def using demo_signer_ok [of "demo_uploader ''1700000001-0'' 3"]
    by (auto simp: demo_uploader_sel)
  have nonce: "''1700000001-0'' = str_int (time_now E (Suc (clock_reads world0))) @ ''-'' @ str_nat 0"
    by (simp add: E_def demo_env_sel world0_def str_int_def str_nat.simps digit_char_def)
  obtain auth1 where auth1:
    "signer E (self\<lparr>unique_id := ''1700000001-0''\<rparr>) (Suc (Suc (clock_reads world0))) = Inr auth1"
    unfolding E_def self_def
    using demo_signer_ok [of "(demo_uploader ''1700000001-0'' 3)\<lparr>unique_id := ''1700000001-0''\<rparr>"]
    by (auto simp: demo_uploader_sel)
  have none_before: "\<exists>resp. transport E k r = Inr resp \<and> generic_failure resp" if "k < 0" for k r
    using that by simp
  have script: "transport E 0 r = Inr http_replayed" "transport E (Suc 0) r = Inr http_ok" for r
    by (simp_all add: E_def demo_env_sel scripted_def)
  have resp: "replay_failure http_replayed" "status_code http_ok = 200"
    "resp_json http_ok = Inr (PDict [(''url'', PStr ''https://cdn.example/blob'')])"
    by (simp_all add: replay_failure_def http_replayed_def http_ok_def)
  have budget: "int (Suc 0) < retries self" "fs E (file_path self) = Some ''hello''"
    by (simp_all add: self_def E_def demo_uploader_sel demo_env_sel)
  obtain w' where w': "upload E self world0 = (Inr True, self\<lparr>unique_id := ''1700000001-0''\<rparr>, w')"
    "tokens_made (trace w') = tokens_made (trace world0) @ [unique_id self, ''1700000001-0'']"
    using upload_replay_then_ok [OF budget auth0 none_before script(1) resp(1) nonce auth1
        script(2) resp(2,3)]
    by blast
  show ?thesis
    using w' by (simp add: E_def [symmetric] self_def [symmetric])
       (simp add: self_def demo_uploader_sel world0_def)
qed

subsection \<open>C4: a transport that always fails\<close>

text \<open>
  When every response is a generic failure, every one of the \<open>n\<close> attempts of the budget
  is sent, the waits between them are \<open>2 ^ 0, \<dots>, 2 ^ (n - 2)\<close>, and the run ends with
  the outputs of exhaustion.
\<close>

lemma concat_backoff:
  "concat (map (\<lambda>a. if int a < int n - 1 then [2 ^ a] else []) [0..<n]) =
     map (\<lambda>a. 2 ^ a) [0..<n - 1]"
proof (cases n)
  case 0
  then show ?thesis by simp
next
  case (Suc m)
  have "concat (map (\<lambda>a. if int a < int m then [2 ^ a] else []) [0..<m]) =
          concat (map (\<lambda>a. [2 ^ a]) [0..<m])"
    by (rule arg_cong [where f = concat], rule map_cong) simp_all
  then show ?thesis
    using Suc by simp
qed

lemma upload_all_generic:
  assumes "retries self = int n"
    and "fs E (file_path self) = Some content"
    and "signer E self (clock_reads w) = Inr auth"
    and "\<And>a r. a < n \<Longrightarrow> \<exists>resp. transport E a r = Inr resp \<and> generic_failure resp"
  shows "\<exists>w'. upload E self w = (Inr False, self, w') \<and>
           length (posts (trace w')) = length (posts (trace w)) + n \<and>
           sleeps (trace w') = sleeps (trace w) @ map (\<lambda>a. 2 ^ a) [0..<n - 1] \<and>
           tokens_made (trace w') = tokens_made (trace w) @ [unique_id self] \<and>
           outputs (trace w') = outputs (trace w) @
             [(''success'', PStr ''false''),
              (''error'', PStr (''Failed after '' @ str_int (int n) @ '' attempts''))] \<and>
           timeline (trace w') = timeline (trace w) @
             Minted (unique_id self) #
             concat (map (\<lambda>a. Sent auth # (if int a < int n - 1 then [Slept (2 ^ a)] else []))
                       [0..<n]) @
             [Reported ''success'' (PStr ''false''),
              Reported ''error'' (PStr (''Failed after '' @ str_int (int n) @ '' attempts''))]"
proof -
  define w2 where "w2 = snd (open_files self content (snd (hash_file E content w)))"
  have w2: "trace w2 = trace w" "clock_reads w2 = clock_reads w"
    by (simp_all add: w2_def trace_open_files clock_open_files trace_hash_file clock_hash_file)
  obtain w3 ts where run: "create_auth_event E self w2 = (Inr auth, w3)"
    "trace w3 = trace w2 @ ts" "posts ts = []" "sleeps ts = []" "outputs ts = []"
    "tokens_made ts = [unique_id self]"
    using signer_run [of E self w2 auth] assms(3) w2 by auto
  have order3: "timeline (trace w3) = timeline (trace w) @ [Minted (unique_id self)]"
    using create_auth_event_timeline [of E self w2] run(1) w2(1) by simp
  have generic:
    "\<And>a r. a \<in> set [0..<n] \<Longrightarrow> \<exists>resp. transport E a r = Inr resp \<and> generic_failure resp"
    using assms(4) by simp
  then obtain w4 where w4:
    "upload_loop E (fst (open_files self content (snd (hash_file E content w))))
       (fst (hash_file E content w)) (length content) [0..<n] (self, auth, w3)
       = (None, self, auth, w4)"
    "length (posts (trace w4)) = length (posts (trace w3)) + length [0..<n]"
    "sleeps (trace w4) = sleeps (trace w3) @
       concat (map (\<lambda>a. if int a < retries self - 1 then [2 ^ a] else []) [0..<n])"
    "outputs (trace w4) = outputs (trace w3)"
    "tokens_made (trace w4) = tokens_made (trace w3)"
    using loop_generic [of "[0..<n]" E _ _ _ self auth w3] by blast
  have order4: "timeline (trace w4) = timeline (trace w3) @
      concat (map (\<lambda>a. Sent auth # (if int a < int n - 1 then [Slept (2 ^ a)] else []))
                [0..<n])"
    using loop_generic_timeline [OF generic w4(1)] assms(1) by simp
  show ?thesis
    using run w2 assms(1,2) w4 concat_backoff [of n] order3 order4
    by (simp add: upload_unfold w2_def [symmetric] trace_set_output proj_append)
qed

text \<open>
  Claim C4. With a retry budget of 3 and a transport whose every response is a generic
  failure (a status other than 200, a body that does not say the event was already
  used), \<^verbatim>\<open>upload\<close> makes exactly 3 send attempts, sleeps \<open>2 ^ 0\<close> between the first and
  the second and \<open>2 ^ 1\<close> between the second and the third (the zero-based attempt index
  is the exponent, so the waits grow) and not after the third, returns \<^verbatim>\<open>False\<close>, and
  then sets \<^verbatim>\<open>success\<close> to \<^verbatim>\<open>false\<close> and \<^verbatim>\<open>error\<close> to \<^verbatim>\<open>Failed after 3 attempts\<close>. The
  last conjunct gives the order: what the run adds to the timeline is the construction
  of the token, then send, wait, send, wait, send, then the two outputs. Hypothesis: the
  file exists and the construction of the token succeeds.
\<close>

theorem upload_budget_three:
  assumes "retries self = 3"
    and "fs E (file_path self) = Some content"
    and "signer E self (clock_reads w) = Inr auth"
    and "\<And>a r. a < 3 \<Longrightarrow> \<exists>resp. transport E a r = Inr resp \<and> generic_failure resp"
  shows "\<exists>w'. upload E self w = (Inr False, self, w') \<and>
           length (posts (trace w')) = length (posts (trace w)) + 3 \<and>
           sleeps (trace w') = sleeps (trace w) @ [2 ^ 0, 2 ^ 1] \<and>
           outputs (trace w') = outputs (trace w) @
             [(''success'', PStr ''false''), (''error'', PStr ''Failed after 3 attempts'')] \<and>
           timeline (trace w') = timeline (trace w) @
             [Minted (unique_id self),
              Sent auth, Slept (2 ^ 0), Sent auth, Slept (2 ^ 1), Sent auth,
              Reported ''success'' (PStr ''false''),
              Reported ''error'' (PStr ''Failed after 3 attempts'')]"
proof -
  have two: "[0..<3 - 1] = [0, 1::nat]"
    by (simp add: upt_rec)
  have three: "[0..<3] = [0, 1, 2::nat]"
    by (simp add: upt_rec)
  have str3: "str_int (int 3) = ''3''"
    by (simp add: str_int_def str_nat_digit digit_char_def)
  show ?thesis
    using upload_all_generic [of self 3 E content w auth] assms two three str3 by auto
qed

theorem upload_budget_three_witness:
  "\<exists>w' auth. upload (demo_env demo_lib [Inr http_500, Inr http_500, Inr http_500])
           (demo_uploader ''n1'' 3) world0 = (Inr False, demo_uploader ''n1'' 3, w') \<and>
         length (posts (trace w')) = 3 \<and>
         sleeps (trace w') = [1, 2] \<and>
         outputs (trace w') =
           [(''success'', PStr ''false''), (''error'', PStr ''Failed after 3 attempts'')] \<and>
         timeline (trace w') =
           [Minted ''n1'', Sent auth, Slept 1, Sent auth, Slept 2, Sent auth,
            Reported ''success'' (PStr ''false''),
            Reported ''error'' (PStr ''Failed after 3 attempts'')]"
proof -
  define E where "E = demo_env demo_lib [Inr http_500, Inr http_500, Inr http_500]"
  obtain auth where auth: "signer E (demo_uploader ''n1'' 3) (clock_reads world0) = Inr auth"
    unfolding E_def using demo_signer_ok [of "demo_uploader ''n1'' 3"]
    by (auto simp: demo_uploader_sel)
  have generic: "generic_failure http_500"
    by (simp add: generic_failure_def http_500_def)
  have script: "\<exists>resp. transport E a r = Inr resp \<and> generic_failure resp" if "a < 3" for a r
  proof -
    have "a = 0 \<or> a = 1 \<or> a = 2"
      using that by auto
    then have "transport E a r = Inr http_500"
      by (auto simp add: E_def demo_env_sel scripted_def)
    then show ?thesis
      using generic by simp
  qed
  have budget: "retries (demo_uploader ''n1'' 3) = 3"
    "fs E (file_path (demo_uploader ''n1'' 3)) = Some ''hello''"
    by (simp_all add: demo_uploader_sel E_def demo_env_sel)
  obtain w' where w':
    "upload E (demo_uploader ''n1'' 3) world0 = (Inr False, demo_uploader ''n1'' 3, w')"
    "length (posts (trace w')) = length (posts (trace world0)) + 3"
    "sleeps (trace w') = sleeps (trace world0) @ [2 ^ 0, 2 ^ 1]"
    "outputs (trace w') = outputs (trace world0) @
       [(''success'', PStr ''false''), (''error'', PStr ''Failed after 3 attempts'')]"
    "timeline (trace w') = timeline (trace world0) @
       [Minted (unique_id (demo_uploader ''n1'' 3)),
        Sent auth, Slept (2 ^ 0), Sent auth, Slept (2 ^ 1), Sent auth,
        Reported ''success'' (PStr ''false''),
        Reported ''error'' (PStr ''Failed after 3 attempts'')]"
    using upload_budget_three [OF budget auth script] by blast
  show ?thesis
    using w'
    by (intro exI [of _ w'] exI [of _ auth])
       (simp add: E_def [symmetric] world0_def demo_uploader_sel)
qed

subsection \<open>C5: the body of a retry and the file objects\<close>

lemma create_auth_event_frame:
  assumes "create_auth_event E self w = (r, w')"
  shows "posts (trace w') = posts (trace w) \<and> handles w' = handles w"
proof -
  obtain ts where "trace (snd (create_auth_event E self w)) = trace w @ ts" "posts ts = []"
    using create_auth_event_trace by blast
  then have "posts (trace w') = posts (trace w)"
    using assms by (simp add: posts_append)
  moreover have "handles w' = handles w"
    using assms create_auth_event_handles [of E self w] by simp
  ultimately show ?thesis
    by simp
qed

lemma handles_backoff: "handles (backoff self a w) = handles w"
  by (simp add: backoff_def emit_def)

lemma posts_backoff: "posts (trace (backoff self a w)) = posts (trace w)"
  by (simp add: trace_backoff posts_append)

lemma handles_set_output: "handles (set_output k v w) = handles w"
  by (simp add: set_output_def emit_def)

lemma posts_set_output: "posts (trace (set_output k v w)) = posts (trace w)"
  by (simp add: trace_set_output posts_append)

lemma requests_post_handles:
  "handles (snd (requests_post E a url auth files w)) =
     handles (snd (read_rest (part_handle files) w))"
  by (simp add: requests_post_def Let_def case_prod_beta emit_def)

text \<open>
  Every pass of the loop sends one request, whose body is what is left to read of the
  file object, and leaves the file object read to the end.
\<close>

lemma step_posts:
  assumes "attempt_step E files fh fsz a (self, auth, w) = (r, self', auth', w')"
  shows "posts (trace w') = posts (trace w) @
           [build_request (host self @ ''/upload'') auth files
              (fst (read_rest (part_handle files) w))]"
    and "handles w' = handles (snd (read_rest (part_handle files) w))"
proof -
  define w1 where "w1 = snd (requests_post E a (host self @ ''/upload'') auth files w)"
  have w1: "posts (trace w1) = posts (trace w) @
      [build_request (host self @ ''/upload'') auth files (fst (read_rest (part_handle files) w))]"
    "handles w1 = handles (snd (read_rest (part_handle files) w))"
    by (simp_all add: w1_def requests_post_trace posts_append requests_post_handles)
  have "posts (trace w') = posts (trace w1) \<and> handles w' = handles w1"
    using assms
    by (cases "requests_post E a (host self @ ''/upload'') auth files w")
       (auto simp add: attempt_step_def w1_def read_clock_def Let_def
          handles_backoff posts_backoff handles_set_output posts_set_output
          dest!: create_auth_event_frame
          split: sum.splits if_splits pyval.splits prod.splits)
  then show "posts (trace w') = posts (trace w) @
           [build_request (host self @ ''/upload'') auth files
              (fst (read_rest (part_handle files) w))]"
    and "handles w' = handles (snd (read_rest (part_handle files) w))"
    using w1 by simp_all
qed

lemma read_rest_depends: "handles w = handles w0 \<Longrightarrow> fst (read_rest h w) = fst (read_rest h w0)"
  by (simp add: read_rest_def Let_def)

lemma read_rest_exhausts: "fst (read_rest h (snd (read_rest h w))) = []"
  by (simp add: read_rest_def Let_def)

lemma handles_read_rest_idem:
  "handles (snd (read_rest h (snd (read_rest h w)))) = handles (snd (read_rest h w))"
  by (simp add: read_rest_def Let_def list_update_same_conv)

lemma closed_read_rest:
  "map h_closed (handles (snd (read_rest h w))) = map h_closed (handles w)"
  by (simp add: read_rest_def Let_def map_update list_update_same_conv)

text \<open>
  So once the file object has been read to the end, every request the loop sends has an
  empty body, and the loop closes no file object.
\<close>

lemma loop_bodies:
  assumes "upload_loop E files fh fsz as (self, auth, w) = (r, self', auth', w')"
    and "fst (read_rest (part_handle files) w) = []"
  shows "map req_body (posts (trace w')) =
           map req_body (posts (trace w)) @ replicate (length (posts (trace w')) - length (posts (trace w))) []"
  using assms
proof (induction as arbitrary: self auth w)
  case Nil
  then show ?case by simp
next
  case (Cons a as)
  obtain r1 self1 auth1 w1 where step:
    "attempt_step E files fh fsz a (self, auth, w) = (r1, self1, auth1, w1)"
    by (metis prod_cases4)
  have w1: "posts (trace w1) = posts (trace w) @
      [build_request (host self @ ''/upload'') auth files []]"
    "handles w1 = handles (snd (read_rest (part_handle files) w))"
    using step_posts [OF step] Cons.prems(2) by simp_all
  have again: "fst (read_rest (part_handle files) w1) = []"
    using read_rest_depends [OF w1(2)] by (simp add: read_rest_exhausts)
  show ?case
  proof (cases r1)
    case None
    then have rest: "upload_loop E files fh fsz as (self1, auth1, w1) = (r, self', auth', w')"
      using Cons.prems(1) step by simp
    have "length (posts (trace w1)) \<le> length (posts (trace w'))"
      using Cons.IH [OF rest again] by (metis length_map length_append le_add1)
    then have "length (posts (trace w')) - length (posts (trace w)) =
        Suc (length (posts (trace w')) - length (posts (trace w1)))"
      using w1(1) by simp
    then show ?thesis
      using Cons.IH [OF rest again] w1(1) by (simp add: build_request_def)
  next
    case (Some b)
    then have "w' = w1"
      using Cons.prems(1) step by simp
    then show ?thesis
      using w1(1) by (simp add: build_request_def)
  qed
qed

lemma loop_closed:
  assumes "upload_loop E files fh fsz as (self, auth, w) = (r, self', auth', w')"
  shows "map h_closed (handles w') = map h_closed (handles w)"
  using assms
proof (induction as arbitrary: self auth w)
  case Nil
  then show ?case by simp
next
  case (Cons a as)
  obtain r1 self1 auth1 w1 where step:
    "attempt_step E files fh fsz a (self, auth, w) = (r1, self1, auth1, w1)"
    by (metis prod_cases4)
  have w1: "map h_closed (handles w1) = map h_closed (handles w)"
    using step_posts(2) [OF step] by (simp add: closed_read_rest)
  show ?case
  proof (cases r1)
    case None
    then have "upload_loop E files fh fsz as (self1, auth1, w1) = (r, self', auth', w')"
      using Cons.prems step by simp
    then show ?thesis
      using Cons.IH w1 by simp
  next
    case (Some b)
    then show ?thesis
      using Cons.prems step w1 by simp
  qed
qed

lemma loop_bodies_fresh:
  assumes "upload_loop E files fh fsz as (self, auth, w) = (r, self', auth', w')"
    and "n = length (posts (trace w')) - length (posts (trace w))"
  shows "map req_body (posts (trace w')) =
           map req_body (posts (trace w)) @
           (if n = 0 then [] else fst (read_rest (part_handle files) w) # replicate (n - 1) [])"
proof (cases as)
  case Nil
  then show ?thesis
    using assms by simp
next
  case (Cons a as')
  obtain r1 self1 auth1 w1 where step:
    "attempt_step E files fh fsz a (self, auth, w) = (r1, self1, auth1, w1)"
    by (metis prod_cases4)
  have w1: "posts (trace w1) = posts (trace w) @
      [build_request (host self @ ''/upload'') auth files (fst (read_rest (part_handle files) w))]"
    "handles w1 = handles (snd (read_rest (part_handle files) w))"
    using step_posts [OF step] by simp_all
  have again: "fst (read_rest (part_handle files) w1) = []"
    using read_rest_depends [OF w1(2)] by (simp add: read_rest_exhausts)
  show ?thesis
  proof (cases r1)
    case None
    then have rest: "upload_loop E files fh fsz as' (self1, auth1, w1) = (r, self', auth', w')"
      using assms(1) step Cons by simp
    have bodies: "map req_body (posts (trace w')) = map req_body (posts (trace w1)) @
        replicate (length (posts (trace w')) - length (posts (trace w1))) []"
      using loop_bodies [OF rest again] .
    then have "length (posts (trace w1)) \<le> length (posts (trace w'))"
      by (metis length_map length_append le_add1)
    then have "n = Suc (length (posts (trace w')) - length (posts (trace w1)))"
      using w1(1) assms(2) by simp
    then show ?thesis
      using bodies w1(1) by (simp add: build_request_def)
  next
    case (Some b)
    then have "w' = w1"
      using assms(1) step Cons by simp
    then show ?thesis
      using w1(1) assms(2) by (simp add: build_request_def)
  qed
qed

lemma open_files_fresh:
  "fst (read_rest (part_handle (fst (open_files self content w)))
          (snd (open_files self content w))) = content"
  by (simp add: open_files_def open_rb_def read_rest_def Let_def nth_append)

lemma open_files_closed:
  "map h_closed (handles (snd (open_files self content (snd (hash_file E content w))))) =
     map h_closed (handles w) @
     True # (if content_type self = [] then [False] else [False, False])"
  by (simp add: open_files_def open_rb_def hash_file_def Let_def)


text \<open>
  Whatever the environment, of the requests one call of \<^verbatim>\<open>upload\<close> sends only the first
  carries the file; every later one has an empty body. And when \<^verbatim>\<open>upload\<close> returns, the
  file object of the digest is closed and those opened for the upload are open.
\<close>

lemma upload_bodies:
  assumes "fs E (file_path self) = Some content"
    and "upload E self w = (r, self', w')"
    and "n = length (posts (trace w')) - length (posts (trace w))"
  shows "map req_body (posts (trace w')) =
           map req_body (posts (trace w)) @ (if n = 0 then [] else content # replicate (n - 1) [])"
    and "map h_closed (handles w') =
           map h_closed (handles w) @
           True # (if content_type self = [] then [False] else [False, False])"
proof -
  define w2 where "w2 = snd (open_files self content (snd (hash_file E content w)))"
  define files where "files = fst (open_files self content (snd (hash_file E content w)))"
  have w2: "trace w2 = trace w"
    "map h_closed (handles w2) = map h_closed (handles w) @
       True # (if content_type self = [] then [False] else [False, False])"
    "fst (read_rest (part_handle files) w2) = content"
    by (simp_all add: w2_def files_def trace_open_files trace_hash_file open_files_closed
          open_files_fresh)
  obtain res w3 where sign: "create_auth_event E self w2 = (res, w3)"
    by (metis surj_pair)
  have w3: "posts (trace w3) = posts (trace w2)" "handles w3 = handles w2"
    using create_auth_event_frame [OF sign] by simp_all
  have "map req_body (posts (trace w')) =
           map req_body (posts (trace w)) @ (if n = 0 then [] else content # replicate (n - 1) []) \<and>
        map h_closed (handles w') = map h_closed (handles w2)"
  proof (cases res)
    case (Inl e)
    then have "w' = set_output ''error'' (PStr (str_of e)) (set_output ''success'' (PStr ''false'') w3)"
      using assms(1,2) sign by (simp add: upload_unfold w2_def [symmetric])
    then show ?thesis
      using w3 w2(1) assms(3) by (simp add: posts_set_output handles_set_output)
  next
    case (Inr auth)
    obtain r4 self4 auth4 w4 where loop:
      "upload_loop E files (fst (hash_file E content w)) (length content)
         [0..<nat (retries self)] (self, auth, w3) = (r4, self4, auth4, w4)"
      by (metis prod_cases4)
    have fresh: "fst (read_rest (part_handle files) w3) = content"
      using read_rest_depends [OF w3(2)] w2(3) by simp
    have up: "upload E self w =
        (case r4 of
           Some b \<Rightarrow> (Inr b, self4, w4)
         | None \<Rightarrow>
             (Inr False, self4,
              set_output ''error''
                (PStr (''Failed after '' @ str_int (retries self4) @ '' attempts''))
                (set_output ''success'' (PStr ''false'') w4)))"
      using assms(1) sign Inr loop
      by (simp add: upload_unfold w2_def [symmetric] files_def [symmetric] split: option.splits)
    have "posts (trace w') = posts (trace w4) \<and> handles w' = handles w4"
      using assms(2) up
      by (cases r4) (auto simp add: posts_set_output handles_set_output)
    then have w': "posts (trace w') = posts (trace w4)" "handles w' = handles w4"
      by simp_all
    have "n = length (posts (trace w4)) - length (posts (trace w3))"
      using assms(3) w' w3 w2(1) by simp
    then show ?thesis
      using loop_bodies_fresh [OF loop] loop_closed [OF loop] fresh w' w3 w2(1) by simp
  qed
  then show "map req_body (posts (trace w')) =
           map req_body (posts (trace w)) @ (if n = 0 then [] else content # replicate (n - 1) [])"
    and "map h_closed (handles w') =
           map h_closed (handles w) @
           True # (if content_type self = [] then [False] else [False, False])"
    using w2(2) by simp_all
qed

text \<open>
  Claim C5 fails on the code. The file object is opened once, before the loop, and
  never rewound or closed: after a first attempt that fails, the second attempt sends
  an empty body (and here is answered with 200, so that success is reported for it),
  and the file objects opened for the upload are still open when \<^verbatim>\<open>upload\<close> returns;
  with a content type there are two of them.
\<close>

theorem retry_sends_empty_body:
  "fst (upload (demo_env demo_lib [Inr http_500, Inr http_ok])
     (demo_uploader ''n1'' 3) world0) = Inr True \<and>
   map req_body (posts (trace (snd (snd (upload (demo_env demo_lib [Inr http_500, Inr http_ok])
     (demo_uploader ''n1'' 3) world0))))) = [''hello'', []] \<and>
   map h_closed (handles (snd (snd (upload (demo_env demo_lib [Inr http_500, Inr http_ok])
     (demo_uploader ''n1'' 3) world0)))) = [True, False] \<and>
   map h_closed (handles (snd (snd (upload (demo_env demo_lib [Inr http_500, Inr http_ok])
     ((demo_uploader ''n1'' 3)\<lparr>content_type := ''text/plain''\<rparr>) world0)))) = [True, False, False]"
proof -
  define E where "E = demo_env demo_lib [Inr http_500, Inr http_ok]"
  obtain raw where raw: "decode_key demo_lib demo_key = Inr raw"
    using demo_decode by blast
  have ok: "fst (upload E (demo_uploader ''n1'' 3) world0) = Inr True"
    using raw
    by (simp add: E_def run_defs demo_env_sel demo_uploader_sel demo_build demo_sign scripted_def
          http_500_def http_ok_def upt_rec)
  have bodies: "map req_body (posts (trace (snd (snd (upload E (demo_uploader ''n1'' 3) world0)))))
      = [''hello'', []]"
    using raw
    by (simp add: E_def run_defs demo_env_sel demo_uploader_sel demo_build demo_sign scripted_def
          http_500_def http_ok_def upt_rec)
  have open1: "map h_closed (handles (snd (snd (upload E (demo_uploader ''n1'' 3) world0))))
      = [True, False]"
    using raw
    by (simp add: E_def run_defs demo_env_sel demo_uploader_sel demo_build demo_sign scripted_def
          http_500_def http_ok_def upt_rec)
  have open2: "map h_closed (handles (snd (snd (upload E
      ((demo_uploader ''n1'' 3)\<lparr>content_type := ''text/plain''\<rparr>) world0)))) = [True, False, False]"
    using raw
    by (simp add: E_def run_defs demo_env_sel demo_uploader_sel demo_build demo_sign scripted_def
          http_500_def http_ok_def upt_rec)
  show ?thesis
    unfolding E_def [symmetric] using ok bodies open1 open2 by (intro conjI)
qed

subsection \<open>C6: a key that cannot be decoded\<close>

text \<open>
  Without the prefix \<^verbatim>\<open>nsec\<close>, lines 61--65 turn every failure of the decoding into
  \<^verbatim>\<open>ValueError("Invalid private key format")\<close>. That is so for a text with a character
  which is neither a hexadecimal digit nor white space, whatever the library (so for
  every text with another prefix, such as \<^verbatim>\<open>npub\<close>), and for a hexadecimal text whose
  bytes \<^verbatim>\<open>PrivateKey\<close> refuses. The code itself does not look at the length of the key:
  a key of another length is refused when the library refuses it.
\<close>

lemma bytes_fromhex_bad_char:
  "c \<in> set key \<Longrightarrow> \<not> is_space c \<Longrightarrow> hex_val c = None \<Longrightarrow> bytes_fromhex key = None"
  by (induction key rule: bytes_fromhex.induct) (auto split: option.splits)

lemma non_hex_key_refused:
  assumes "\<not> prefix ''nsec'' key" and "c \<in> set key" and "\<not> is_space c" and "hex_val c = None"
  shows "decode_key L key = Inl (Exn ValueError ''Invalid private key format'')"
  using assms bytes_fromhex_bad_char [of c key] by (simp add: decode_key_def)

lemma refused_bytes_key:
  assumes "\<not> prefix ''nsec'' key" and "bytes_fromhex key = Some raw"
    and "private_key L raw = Inl e"
  shows "decode_key L key = Inl (Exn ValueError ''Invalid private key format'')"
  using assms by (simp add: decode_key_def)

text \<open>
  With the prefix \<^verbatim>\<open>nsec\<close> (line 60) nothing catches what \<^verbatim>\<open>PrivateKey.from_nsec\<close>
  raises: the exception of the library is the one that leaves the signer.
\<close>

lemma from_nsec_error_propagates:
  assumes "prefix ''nsec'' key"
  shows "decode_key L key = from_nsec L key"
  using assms by (simp add: decode_key_def)

text \<open>
  Whatever the decoding raises, the signer raises, and it stops there: the clock was
  not read, no event was built and nothing was hashed or signed.
\<close>

lemma decode_failure_stops_signer:
  assumes "decode_key (lib E) (nsec_key self) = Inl e" and "NOSTR_LIB E = NostrPython"
  shows "create_auth_event E self w = (Inl e, emit (CreateAuthEvent (unique_id self)) w)"
    and "signer E self c = Inl e"
  using assms
  by (simp_all add: signer_def create_auth_event_def create_auth_event_nostr_python_def Let_def)

text \<open>
  Claim C6 fails on the code. The text \<^verbatim>\<open>nsec1tooshort\<close> has the prefix \<^verbatim>\<open>nsec\<close> and is no
  encoding of a key. With a library whose \<^verbatim>\<open>PrivateKey.from_nsec\<close> raises \<^verbatim>\<open>TypeError\<close>
  on it, the signer raises that \<^verbatim>\<open>TypeError\<close>, not an invalid-key error, and \<^verbatim>\<open>upload\<close>
  reports its message as the error. For the text \<^verbatim>\<open>npub1qqqq\<close>, which has another
  prefix, the same library and the same code give
  \<^verbatim>\<open>ValueError("Invalid private key format")\<close>. In both runs the signer stops before the
  event is built: all it leaves in the trace is the mark of its call.
\<close>

theorem nsec_key_error_not_wrapped:
  "create_auth_event (demo_env demo_lib [])
     ((demo_uploader ''n1'' 3)\<lparr>nsec_key := ''nsec1tooshort''\<rparr>) world0 =
     (Inl (Exn TypeError ''NoneType object is not iterable''),
      world0\<lparr>trace := [CreateAuthEvent ''n1'']\<rparr>) \<and>
   outputs (trace (snd (snd (upload (demo_env demo_lib [])
     ((demo_uploader ''n1'' 3)\<lparr>nsec_key := ''nsec1tooshort''\<rparr>) world0)))) =
     [(''success'', PStr ''false''), (''error'', PStr ''NoneType object is not iterable'')] \<and>
   create_auth_event (demo_env demo_lib [])
     ((demo_uploader ''n1'' 3)\<lparr>nsec_key := ''npub1qqqq''\<rparr>) world0 =
     (Inl (Exn ValueError ''Invalid private key format''),
      world0\<lparr>trace := [CreateAuthEvent ''n1'']\<rparr>)"
proof -
  define E where "E = demo_env demo_lib []"
  define bad where "bad = (demo_uploader ''n1'' 3)\<lparr>nsec_key := ''nsec1tooshort''\<rparr>"
  define other where "other = (demo_uploader ''n1'' 3)\<lparr>nsec_key := ''npub1qqqq''\<rparr>"
  have lib: "NOSTR_LIB E = NostrPython" "fs E (file_path bad) = Some ''hello''"
    by (simp_all add: E_def bad_def demo_env_sel demo_uploader_sel)
  have "decode_key (lib E) (nsec_key bad) = from_nsec (lib E) (nsec_key bad)"
    by (rule from_nsec_error_propagates) (simp add: bad_def)
  then have a: "decode_key (lib E) (nsec_key bad) =
      Inl (Exn TypeError ''NoneType object is not iterable'')"
    by (simp add: E_def bad_def demo_env_sel demo_lib_def)
  have b: "decode_key (lib E) (nsec_key other) = Inl (Exn ValueError ''Invalid private key format'')"
    by (rule non_hex_key_refused [of _ "CHR ''n''"])
       (simp_all add: other_def hex_val_def is_space_def)
  have run_a: "create_auth_event E bad world0 =
      (Inl (Exn TypeError ''NoneType object is not iterable''),
       world0\<lparr>trace := [CreateAuthEvent ''n1'']\<rparr>)"
    using decode_failure_stops_signer(1) [OF a lib(1), of world0]
    by (simp add: emit_def world0_def bad_def demo_uploader_sel)
  have run_b: "create_auth_event E other world0 =
      (Inl (Exn ValueError ''Invalid private key format''),
       world0\<lparr>trace := [CreateAuthEvent ''n1'']\<rparr>)"
    using decode_failure_stops_signer(1) [OF b lib(1), of world0]
    by (simp add: emit_def world0_def other_def demo_uploader_sel)
  have "signer E bad (clock_reads world0) = Inl (Exn TypeError ''NoneType object is not iterable'')"
    using decode_failure_stops_signer(2) [OF a lib(1)] .
  then obtain w' where "upload E bad world0 = (Inr False, bad, w')"
    "outputs (trace w') = outputs (trace world0) @
       [(''success'', PStr ''false''),
        (''error'', PStr (str_of (Exn TypeError ''NoneType object is not iterable'')))]"
    using upload_signer_failure [OF lib(2)] by blast
  then have out: "outputs (trace (snd (snd (upload E bad world0)))) =
      [(''success'', PStr ''false''), (''error'', PStr ''NoneType object is not iterable'')]"
    by (simp add: world0_def)
  show ?thesis
    using run_a run_b out unfolding E_def bad_def other_def by (intro conjI)
qed

subsection \<open>C7: the nonce when none is given\<close>

lemma create_auth_event_tokens:
  "tokens_made (trace (snd (create_auth_event E self w))) = tokens_made (trace w) @ [unique_id self]"
  using create_auth_event_trace [of E self w] by (auto simp add: tokens_made_append)

text \<open>
  Claim C7, as amended. When the caller gives no \<^verbatim>\<open>unique_id\<close>, the nonce of the
  uploader is the decimal text of \<^verbatim>\<open>int(time.time())\<close>, read when the uploader is
  constructed; it is the value of the \<^verbatim>\<open>payload\<close> tag handed to the constructor of the
  event, and the nonce \<^verbatim>\<open>create_auth_event\<close> is called with. The digest of the file has
  no part in it.
\<close>

theorem default_nonce_is_clock:
  assumes "init E h k p t [] r w = (Inr self, w')"
  shows "unique_id self = str_int (time_now E (clock_reads w)) \<and>
         auth_tags self =
           [[''u'', rstrip_slash h @ ''/upload''], [''method'', ''POST''],
            [''payload'', str_int (time_now E (clock_reads w))]] \<and>
         tokens_made (trace (snd (create_auth_event E self w0))) =
           tokens_made (trace w0) @ [str_int (time_now E (clock_reads w))]"
proof -
  have "self = \<lparr>host = rstrip_slash h, nsec_key = k, file_path = p, content_type = t,
                unique_id = str_int (time_now E (clock_reads w)), retries = retries self\<rparr>"
    using assms
    by (auto simp add: init_def read_clock_def Let_def split: sum.splits if_splits)
  then have "unique_id self = str_int (time_now E (clock_reads w))" "host self = rstrip_slash h"
    by (metis uploader.select_convs(5), metis uploader.select_convs(1))
  then show ?thesis
    by (simp add: auth_tags_def create_auth_event_tokens)
qed

theorem default_nonce_is_clock_witness:
  "unique_id (demo_uploader ''1700000000'' 3) = str_int 1700000000 \<and>
   auth_tags (demo_uploader ''1700000000'' 3) =
     [[''u'', ''https://blossom.example/upload''], [''method'', ''POST''],
      [''payload'', ''1700000000'']]"
proof -
  define E where "E = demo_env demo_lib [Inr http_ok]"
  have nums: "str_int 1700000000 = ''1700000000''"
    by (simp add: str_int_def str_nat.simps digit_char_def)
  have i: "init E ''https://blossom.example/'' demo_key ''blob.bin'' [] [] ''3'' world0 =
      (Inr (demo_uploader ''1700000000'' 3), world0\<lparr>clock_reads := 1\<rparr>)"
    by (simp add: init_def read_clock_def E_def demo_env_def demo_uploader_def world0_def
          rstrip_slash_def nums)
  show ?thesis
    using default_nonce_is_clock [OF i, of world0]
    by (simp add: E_def demo_env_sel world0_def rstrip_slash_def nums)
qed

text \<open>
  The claim as it stands fails: with no \<^verbatim>\<open>unique_id\<close> given and the clock at
  1700000000, the uploader \<^verbatim>\<open>main\<close> constructs has the nonce \<^verbatim>\<open>1700000000\<close>, the event
  that is sent carries it in its \<^verbatim>\<open>payload\<close> tag, and the digest of the file is another
  text.
\<close>

theorem default_nonce_is_not_file_hash:
  "fst (init (demo_env demo_lib [Inr http_ok]) ''https://blossom.example/'' demo_key
          ''blob.bin'' [] [] ''3'' world0) = Inr (demo_uploader ''1700000000'' 3) \<and>
   map (last \<circ> ev_tags \<circ> req_auth)
     (posts (trace (snd (main (demo_env demo_lib [Inr http_ok]) (demo_environ ''blob.bin'')
        world0)))) = [[''payload'', ''1700000000'']] \<and>
   fst (hash_file (demo_env demo_lib [Inr http_ok]) ''hello'' world0) =
     ''2cf24dba5fb0a30e26e83b2ac5b9e29e1b161e5c1fa7425e73043362938b9824'' \<and>
   ''1700000000'' \<noteq> ''2cf24dba5fb0a30e26e83b2ac5b9e29e1b161e5c1fa7425e73043362938b9824''"
proof -
  define E where "E = demo_env demo_lib [Inr http_ok]"
  obtain raw where raw: "decode_key demo_lib demo_key = Inr raw"
    using demo_decode by blast
  have nums: "str_int 1700000000 = ''1700000000''"
    by (simp add: str_int_def str_nat.simps digit_char_def)
  have i: "init E ''https://blossom.example/'' demo_key ''blob.bin'' [] [] ''3'' world0 =
      (Inr (demo_uploader ''1700000000'' 3), world0\<lparr>clock_reads := 1\<rparr>)"
    by (simp add: init_def read_clock_def E_def demo_env_def demo_uploader_def world0_def
          rstrip_slash_def nums)
  have env: "environ_get (demo_environ ''blob.bin'') ''INPUT_HOST'' ''https://blossom.swissdash.site''
        = ''https://blossom.example/''"
    "environ_get (demo_environ ''blob.bin'') ''INPUT_FILEPATH'' [] = ''blob.bin''"
    "environ_get (demo_environ ''blob.bin'') ''INPUT_NOSTRPRIVATEKEY'' [] = demo_key"
    "environ_get (demo_environ ''blob.bin'') ''INPUT_CONTENTTYPE'' [] = []"
    "environ_get (demo_environ ''blob.bin'') ''INPUT_UNIQUEID'' [] = []"
    "environ_get (demo_environ ''blob.bin'') ''INPUT_RETRIES'' ''3'' = ''3''"
    by (simp_all add: environ_get_def demo_environ_def)
  have key: "demo_key \<noteq> []"
    by (simp add: demo_key_def)
  have sent: "map (last \<circ> ev_tags \<circ> req_auth)
     (posts (trace (snd (main E (demo_environ ''blob.bin'') world0)))) =
       [[''payload'', ''1700000000'']]"
    using raw key
    by (simp add: main_def env i)
       (simp add: E_def run_defs demo_env_sel demo_uploader_sel demo_build demo_sign scripted_def
          http_ok_def upt_rec demo_event_def auth_tags_def)
  have digest: "fst (hash_file E ''hello'' world0) =
      ''2cf24dba5fb0a30e26e83b2ac5b9e29e1b161e5c1fa7425e73043362938b9824''"
    by (simp add: hash_file_digest E_def demo_env_sel demo_sha256_def)
  show ?thesis
    unfolding E_def [symmetric] using i sent digest by simp
qed

subsection \<open>C8: the report of a success\<close>

text \<open>
  Claim C8. When the response to attempt \<open>a\<close> of the budget has status 200 and a JSON
  object as its body, the attempts before it having got generic failures, \<^verbatim>\<open>upload\<close>
  returns \<^verbatim>\<open>True\<close> after \<open>a + 1\<close> requests and sets, in this order, \<^verbatim>\<open>url\<close> to the \<^verbatim>\<open>url\<close>
  of the body (the empty string when it has none), \<^verbatim>\<open>hash\<close> to the \<^verbatim>\<open>hash\<close> of the body,
  or to the SHA-256 digest of the whole file when the body has none, \<^verbatim>\<open>size\<close> to the
  length of the file, and \<^verbatim>\<open>success\<close> to \<^verbatim>\<open>true\<close>. Lemma \<open>step_ok\<close> is the same fact for
  one pass of the loop in any state.
\<close>

theorem upload_success_report:
  assumes "int a < retries self"
    and "fs E (file_path self) = Some content"
    and "signer E self (clock_reads w) = Inr auth"
    and "\<And>k r. k < a \<Longrightarrow> \<exists>resp. transport E k r = Inr resp \<and> generic_failure resp"
    and "\<And>r. transport E a r = Inr resp"
    and "status_code resp = 200"
    and "resp_json resp = Inr (PDict result)"
  shows "\<exists>w'. upload E self w = (Inr True, self, w') \<and>
           length (posts (trace w')) = length (posts (trace w)) + Suc a \<and>
           sleeps (trace w') = sleeps (trace w) @ map (\<lambda>k. 2 ^ k) [0..<a] \<and>
           outputs (trace w') = outputs (trace w) @
             [(''url'', dict_get result ''url'' (PStr [])),
              (''hash'', dict_get result ''hash'' (PStr (sha256_hexdigest E content))),
              (''size'', PStr (str_nat (length content))),
              (''success'', PStr ''true'')]"
proof -
  define w2 where "w2 = snd (open_files self content (snd (hash_file E content w)))"
  define files where "files = fst (open_files self content (snd (hash_file E content w)))"
  define fh where "fh = sha256_hexdigest E content"
  have w2: "trace w2 = trace w" "clock_reads w2 = clock_reads w"
    by (simp_all add: w2_def trace_open_files clock_open_files trace_hash_file clock_hash_file)
  obtain w3 ts where run: "create_auth_event E self w2 = (Inr auth, w3)"
    "trace w3 = trace w2 @ ts" "posts ts = []" "sleeps ts = []" "outputs ts = []"
    using signer_run [of E self w2 auth] assms(3) w2 by auto
  have "a < nat (retries self)"
    using assms(1) by simp
  then have attempts: "[0..<nat (retries self)] = [0..<a] @ a # [Suc a..<nat (retries self)]"
    by (metis le0 upt_add_eq_append upt_conv_Cons le_add_diff_inverse less_imp_le_nat plus_nat.add_0)
  have "\<And>k r. k \<in> set [0..<a] \<Longrightarrow> \<exists>resp. transport E k r = Inr resp \<and> generic_failure resp"
    using assms(4) by simp
  then obtain w4 where w4:
    "upload_loop E files fh (length content) [0..<a] (self, auth, w3) = (None, self, auth, w4)"
    "length (posts (trace w4)) = length (posts (trace w3)) + length [0..<a]"
    "sleeps (trace w4) = sleeps (trace w3) @
       concat (map (\<lambda>k. if int k < retries self - 1 then [2 ^ k] else []) [0..<a])"
    "outputs (trace w4) = outputs (trace w3)"
    using loop_generic [of "[0..<a]" E files fh "length content" self auth w3] by blast
  have post: "fst (requests_post E a (host self @ ''/upload'') auth files w4) = Inr resp"
    by (simp add: requests_post_result assms(5))
  define w5 where "w5 =
     set_output ''success'' (PStr ''true'')
      (set_output ''size'' (PStr (str_nat (length content)))
        (set_output ''hash'' (dict_get result ''hash'' (PStr fh))
          (set_output ''url'' (dict_get result ''url'' (PStr []))
            (snd (requests_post E a (host self @ ''/upload'') auth files w4)))))"
  have loop: "upload_loop E files fh (length content) [0..<nat (retries self)] (self, auth, w3) =
      (Some True, self, auth, w5)"
    by (simp add: attempts upload_loop_append w4(1) step_ok [OF post assms(6,7)] w5_def)
  have up: "upload E self w = (Inr True, self, w5)"
    using run(1) assms(2) loop
    by (simp add: upload_unfold w2_def [symmetric] files_def [symmetric] hash_file_digest
          fh_def [symmetric])
  have tr: "posts (trace w5) = posts (trace w4) @
        [build_request (host self @ ''/upload'') auth files (fst (read_rest (part_handle files) w4))]"
    "sleeps (trace w5) = sleeps (trace w4)"
    "outputs (trace w5) = outputs (trace w4) @
       [(''url'', dict_get result ''url'' (PStr [])),
        (''hash'', dict_get result ''hash'' (PStr fh)),
        (''size'', PStr (str_nat (length content))),
        (''success'', PStr ''true'')]"
    by (simp_all add: w5_def trace_set_output requests_post_trace proj_append)
  show ?thesis
    using up tr w4(2-4) run(2-5) w2 backoff_before [OF assms(1)]
    by (intro exI [of _ w5]) (simp add: proj_append fh_def)
qed

theorem upload_success_report_witness:
  "\<exists>w'. upload (demo_env demo_lib [Inr http_500, Inr http_ok]) (demo_uploader ''n1'' 3) world0 =
           (Inr True, demo_uploader ''n1'' 3, w') \<and>
         length (posts (trace w')) = 2 \<and>
         sleeps (trace w') = [1] \<and>
         outputs (trace w') =
           [(''url'', PStr ''https://cdn.example/blob''),
            (''hash'', PStr ''2cf24dba5fb0a30e26e83b2ac5b9e29e1b161e5c1fa7425e73043362938b9824''),
            (''size'', PStr ''5''),
            (''success'', PStr ''true'')]"
proof -
  define E where "E = demo_env demo_lib [Inr http_500, Inr http_ok]"
  obtain auth where auth: "signer E (demo_uploader ''n1'' 3) (clock_reads world0) = Inr auth"
    unfolding E_def using demo_signer_ok [of "demo_uploader ''n1'' 3"]
    by (auto simp: demo_uploader_sel)
  have before: "\<exists>resp. transport E k r = Inr resp \<and> generic_failure resp" if "k < 1" for k r
    using that by (simp add: E_def demo_env_sel scripted_def generic_failure_def http_500_def)
  have second: "transport E 1 r = Inr http_ok" for r
    by (simp add: E_def demo_env_sel scripted_def)
  have body: "status_code http_ok = 200"
    "resp_json http_ok = Inr (PDict [(''url'', PStr ''https://cdn.example/blob'')])"
    by (simp_all add: http_ok_def)
  have five: "str_nat (length ''hello'') = ''5''"
    by (simp add: str_nat_digit digit_char_def)
  have budget: "int 1 < retries (demo_uploader ''n1'' 3)"
    "fs E (file_path (demo_uploader ''n1'' 3)) = Some ''hello''"
    by (simp_all add: demo_uploader_sel E_def demo_env_sel)
  show ?thesis
    using upload_success_report [OF budget auth before second body] five
    by (simp add: E_def demo_env_sel dict_get_def demo_sha256_def)
       (simp add: world0_def numeral_2_eq_2)
qed

subsection \<open>C9: a file that does not exist\<close>

text \<open>
  Claim C9. When the configured path names no file, the construction of the uploader
  raises (\<^verbatim>\<open>FileNotFoundError\<close>, unless \<^verbatim>\<open>int(retries)\<close> has raised before it), and
  \<^verbatim>\<open>main\<close> exits with status 1; nothing has been added to the trace by then: no request
  was sent and the signer was not called.
\<close>

theorem missing_file_detected_first:
  assumes "fs E p = None"
  shows "isl (fst (init E h k p t u r w)) \<and>
         trace (snd (init E h k p t u r w)) = trace w \<and>
         (\<forall>n. py_int E r = Inr n \<longrightarrow>
              fst (init E h k p t u r w) = Inl (Exn FileNotFoundError (''File not found: '' @ p))) \<and>
         (environ_get environ ''INPUT_FILEPATH'' [] = p \<longrightarrow>
            fst (main E environ w) = 1 \<and> trace (snd (main E environ w)) = trace w \<and>
            handles (snd (main E environ w)) = handles w)"
proof -
  have init: "isl (fst (init E h k p t u r w))" "trace (snd (init E h k p t u r w)) = trace w"
    "handles (snd (init E h k p t u r w)) = handles w" for h k t u r
    using assms
    by (simp_all add: init_def read_clock_def Let_def case_prod_beta split: sum.splits)
  have err: "fst (init E h k p t u r w) = Inl (Exn FileNotFoundError (''File not found: '' @ p))"
    if "py_int E r = Inr n" for n
    using assms that by (simp add: init_def Let_def case_prod_beta)
  have main: "fst (main E environ w) = 1 \<and> trace (snd (main E environ w)) = trace w \<and>
      handles (snd (main E environ w)) = handles w"
    if "environ_get environ ''INPUT_FILEPATH'' [] = p"
  proof -
    define h' where "h' = environ_get environ ''INPUT_HOST'' ''https://blossom.swissdash.site''"
    define k' where "k' = environ_get environ ''INPUT_NOSTRPRIVATEKEY'' []"
    define t' where "t' = environ_get environ ''INPUT_CONTENTTYPE'' []"
    define u' where "u' = environ_get environ ''INPUT_UNIQUEID'' []"
    define r' where "r' = environ_get environ ''INPUT_RETRIES'' ''3''"
    obtain e w1 where i: "init E h' k' p t' u' r' w = (Inl e, w1)"
      using init(1) [of h' k' t' u' r'] by (cases "init E h' k' p t' u' r' w") (auto simp: isl_def)
    have "trace w1 = trace w" "handles w1 = handles w"
      using init(2,3) [of h' k' t' u' r'] i by simp_all
    then show ?thesis
      using that i
      by (simp add: main_def Let_def h'_def [symmetric] k'_def [symmetric] t'_def [symmetric]
            u'_def [symmetric] r'_def [symmetric])
  qed
  show ?thesis
    using init(1,2) err main by blast
qed

theorem missing_file_detected_first_witness:
  "isl (fst (init (demo_env demo_lib [Inr http_ok]) ''https://blossom.example'' demo_key
          ''missing.bin'' [] [] ''3'' world0)) \<and>
   fst (main (demo_env demo_lib [Inr http_ok]) (demo_environ ''missing.bin'') world0) = 1 \<and>
   trace (snd (main (demo_env demo_lib [Inr http_ok]) (demo_environ ''missing.bin'') world0)) = []"
proof -
  have missing: "fs (demo_env demo_lib [Inr http_ok]) ''missing.bin'' = None"
    by (simp add: demo_env_def)
  have path: "environ_get (demo_environ ''missing.bin'') ''INPUT_FILEPATH'' [] = ''missing.bin''"
    by (simp add: environ_get_def demo_environ_def)
  show ?thesis
    using missing_file_detected_first [OF missing, of "''https://blossom.example''" demo_key
        "[]" "[]" "''3''" world0 "demo_environ ''missing.bin''"] path
    by (simp add: world0_def)
qed

subsection \<open>C10: a retry budget of zero or less\<close>

text \<open>
  Claim C10. For every retry budget \<open>N \<le> 0\<close>, once the token has been constructed,
  \<^verbatim>\<open>upload\<close> makes no send attempt and no backoff sleep, constructs exactly the one
  token, returns \<^verbatim>\<open>False\<close> and sets \<^verbatim>\<open>success\<close> to \<^verbatim>\<open>false\<close> and \<^verbatim>\<open>error\<close> to
  \<^verbatim>\<open>Failed after N attempts\<close>.
\<close>

theorem upload_no_attempts:
  assumes "retries self \<le> 0"
    and "fs E (file_path self) = Some content"
    and "signer E self (clock_reads w) = Inr auth"
  shows "\<exists>w'. upload E self w = (Inr False, self, w') \<and>
           posts (trace w') = posts (trace w) \<and>
           sleeps (trace w') = sleeps (trace w) \<and>
           tokens_made (trace w') = tokens_made (trace w) @ [unique_id self] \<and>
           outputs (trace w') = outputs (trace w) @
             [(''success'', PStr ''false''),
              (''error'', PStr (''Failed after '' @ str_int (retries self) @ '' attempts''))]"
proof -
  define w2 where "w2 = snd (open_files self content (snd (hash_file E content w)))"
  have w2: "trace w2 = trace w" "clock_reads w2 = clock_reads w"
    by (simp_all add: w2_def trace_open_files clock_open_files trace_hash_file clock_hash_file)
  obtain w3 ts where run: "create_auth_event E self w2 = (Inr auth, w3)"
    "trace w3 = trace w2 @ ts" "posts ts = []" "sleeps ts = []" "outputs ts = []"
    "tokens_made ts = [unique_id self]"
    using signer_run [of E self w2 auth] assms(3) w2 by auto
  have "nat (retries self) = 0"
    using assms(1) by simp
  then show ?thesis
    using run w2 assms(2)
    by (simp add: upload_unfold w2_def [symmetric] trace_set_output proj_append)
qed

theorem upload_no_attempts_witness:
  "\<exists>w'. upload (demo_env demo_lib []) (demo_uploader ''n1'' (- 2)) world0 =
           (Inr False, demo_uploader ''n1'' (- 2), w') \<and>
         posts (trace w') = [] \<and> sleeps (trace w') = [] \<and>
         tokens_made (trace w') = [''n1''] \<and>
         outputs (trace w') =
           [(''success'', PStr ''false''), (''error'', PStr ''Failed after -2 attempts'')]"
proof -
  obtain auth where auth:
    "signer (demo_env demo_lib []) (demo_uploader ''n1'' (- 2)) (clock_reads world0) = Inr auth"
    using demo_signer_ok [of "demo_uploader ''n1'' (- 2)"] by (auto simp: demo_uploader_sel)
  have "str_int (- 2) = ''-2''"
    by (simp add: str_int_def str_nat_digit digit_char_def)
  then show ?thesis
    using upload_no_attempts [of "demo_uploader ''n1'' (- 2)" "demo_env demo_lib []" "''hello''"
        world0 auth] auth
    by (simp add: demo_uploader_sel demo_env_sel) (simp add: world0_def)
qed

end
